theory Spec2Isabelle
  imports Main "HOL-Library.AList"
begin

section \<open>Python values\<close>

text \<open>
  The script \<^verbatim>\<open>Resources/Scripts/train_yolov8.py\<close> writes one JSON record per line on
  stdout. Python floats are kept abstract: \<open>'f\<close> is the type of floats and the operations
  the script applies to them are the fields of \<open>pyfloat\<close>, so that nothing is assumed about
  rounding. Every theorem below holds for every choice of these operations.
\<close>

record 'f pyfloat =
  float_of_int :: "int \<Rightarrow> 'f"
  fadd :: "'f \<Rightarrow> 'f \<Rightarrow> 'f"
  fsub :: "'f \<Rightarrow> 'f \<Rightarrow> 'f"
  format_f :: "nat \<Rightarrow> 'f \<Rightarrow> string"
  str_float :: "'f \<Rightarrow> string"

text \<open>
  \<open>float_of_int\<close> is \<^verbatim>\<open>float(i)\<close>, \<open>format_f n x\<close> is \<^verbatim>\<open>format(x, ".nf")\<close> and
  \<open>str_float x\<close> is \<^verbatim>\<open>str(x)\<close>, the text an f-string puts for \<^verbatim>\<open>{x}\<close>.
\<close>

datatype 'f pynum = NumInt int | NumFloat 'f

fun py_float :: "'f pyfloat \<Rightarrow> 'f pynum \<Rightarrow> 'f" where
  "py_float fl (NumInt i) = float_of_int fl i"
| "py_float fl (NumFloat x) = x"

fun py_add :: "'f pyfloat \<Rightarrow> 'f pynum \<Rightarrow> 'f pynum \<Rightarrow> 'f pynum" where
  "py_add fl (NumInt a) (NumInt b) = NumInt (a + b)"
| "py_add fl (NumInt a) (NumFloat y) = NumFloat (fadd fl (float_of_int fl a) y)"
| "py_add fl (NumFloat x) (NumInt b) = NumFloat (fadd fl x (float_of_int fl b))"
| "py_add fl (NumFloat x) (NumFloat y) = NumFloat (fadd fl x y)"

text \<open>\<^verbatim>\<open>d.get(k, 0)\<close> on a dictionary of floats: the float stored, or the integer 0.\<close>

definition get0 :: "(string \<rightharpoonup> 'f) \<Rightarrow> string \<Rightarrow> 'f pynum" where
  "get0 d k = (case d k of None \<Rightarrow> NumInt 0 | Some x \<Rightarrow> NumFloat x)"

text \<open>The values that reach \<^verbatim>\<open>json.dumps\<close>.\<close>

datatype 'f pyval = PyNone | PyInt int | PyFloat 'f | PyStr string

text \<open>
  A \<^verbatim>\<open>dict\<close> keeps insertion order, and storing under a key that is present keeps the
  key's position: this is \<open>AList.update\<close>. \<open>dict_update d e\<close> is \<^verbatim>\<open>d.update(e)\<close>, and also
  the display \<^verbatim>\<open>{**d, **e}\<close>.
\<close>

type_synonym 'f pydict = "(string \<times> 'f pyval) list"

definition dict_update :: "'f pydict \<Rightarrow> 'f pydict \<Rightarrow> 'f pydict" where
  "dict_update d e = fold (\<lambda>kv. AList.update (fst kv) (snd kv)) e d"

text \<open>The exceptions the script meets, by the classes its handlers tell apart.\<close>

datatype pyexc =
    KeyboardInterrupt
  | ImportError string
  | TypeError string
  | Exception string
  | BaseException string

text \<open>
  \<open>Exception msg\<close> stands for an instance of any other subclass of \<^verbatim>\<open>Exception\<close>,
  \<open>BaseException msg\<close> for one of \<^verbatim>\<open>BaseException\<close> outside \<^verbatim>\<open>Exception\<close>
  (\<^verbatim>\<open>SystemExit\<close>, \<^verbatim>\<open>GeneratorExit\<close>); the string is \<^verbatim>\<open>str(e)\<close>.
\<close>

fun is_ImportError :: "pyexc \<Rightarrow> bool" where
  "is_ImportError (ImportError m) = True"
| "is_ImportError e = False"

fun is_Exception :: "pyexc \<Rightarrow> bool" where
  "is_Exception (ImportError m) = True"
| "is_Exception (TypeError m) = True"
| "is_Exception (Exception m) = True"
| "is_Exception e = False"

fun exc_str :: "pyexc \<Rightarrow> string" where
  "exc_str KeyboardInterrupt = []"
| "exc_str (ImportError m) = m"
| "exc_str (TypeError m) = m"
| "exc_str (Exception m) = m"
| "exc_str (BaseException m) = m"

section \<open>Event emitter\<close>

text \<open>
  stdout is the list of records written so far, oldest first. \<^verbatim>\<open>emit\<close> builds
  \<^verbatim>\<open>{"type": event_type, **kwargs}\<close> and prints it as one line, flushed.
\<close>

type_synonym 'f event = "'f pydict"

definition emit :: "string \<Rightarrow> 'f pydict \<Rightarrow> 'f event list \<Rightarrow> 'f event list" where
  "emit event_type kwargs out = out @ [dict_update [(''type'', PyStr event_type)] kwargs]"

definition log :: "string \<Rightarrow> string \<Rightarrow> 'f event list \<Rightarrow> 'f event list" where
  "log level message = emit ''log'' [(''level'', PyStr level), (''message'', PyStr message)]"

definition progress ::
  "'f pyval \<Rightarrow> 'f pyval \<Rightarrow> 'f pyval \<Rightarrow> 'f pyval \<Rightarrow> 'f event list \<Rightarrow> 'f event list" where
  "progress epoch total_epochs step total_steps =
     emit ''progress'' [(''epoch'', epoch), (''totalEpochs'', total_epochs),
                        (''step'', step), (''totalSteps'', total_steps)]"

text \<open>
  \<^verbatim>\<open>emit("metric", **data)\<close> unpacks a dictionary built at run time: a key
  \<^verbatim>\<open>event_type\<close> in it meets the positional argument and the call raises.
\<close>

definition emit_unpacked ::
  "string \<Rightarrow> 'f pydict \<Rightarrow> 'f event list \<Rightarrow> pyexc option \<times> 'f event list" where
  "emit_unpacked event_type data out =
     (if ''event_type'' \<in> fst ` set data
      then (Some (TypeError ''emit() got multiple values for argument event_type''), out)
      else (None, emit event_type data out))"

definition metric ::
  "'f pyval \<Rightarrow> 'f pyval \<Rightarrow> 'f pyval \<Rightarrow> 'f pyval \<Rightarrow> 'f pydict \<Rightarrow> 'f event list
     \<Rightarrow> pyexc option \<times> 'f event list" where
  "metric epoch loss accuracy step extra out =
     (let data = [(''epoch'', epoch), (''loss'', loss)];
          data = (if accuracy \<noteq> PyNone then AList.update ''accuracy'' accuracy data else data);
          data = (if step \<noteq> PyNone then AList.update ''step'' step data else data);
          data = dict_update data extra
      in emit_unpacked ''metric'' data out)"

definition checkpoint :: "'f pyval \<Rightarrow> 'f pyval \<Rightarrow> 'f event list \<Rightarrow> 'f event list" where
  "checkpoint path epoch = emit ''checkpoint'' [(''path'', path), (''epoch'', epoch)]"

definition completed ::
  "'f pyval \<Rightarrow> 'f pyval \<Rightarrow> 'f pyval \<Rightarrow> 'f event list \<Rightarrow> 'f event list" where
  "completed final_loss final_accuracy duration =
     emit ''completed'' [(''finalLoss'', final_loss), (''finalAccuracy'', final_accuracy),
                         (''duration'', duration)]"

definition error :: "string \<Rightarrow> 'f event list \<Rightarrow> 'f event list" where
  "error message = emit ''error'' [(''message'', PyStr message)]"

subsection \<open>Calling \<^verbatim>\<open>metric\<close>\<close>

text \<open>
  \<^verbatim>\<open>def metric(epoch, loss, accuracy=None, step=None, **extra)\<close>: a call gives positional
  values and keywords. Positional values fill the parameters from the left; a keyword named
  after a parameter fills that parameter, and raises when the parameter is filled already;
  the other keywords are \<^verbatim>\<open>extra\<close>, in the order written. A keyword can be given once.
\<close>

definition metric_params :: "string list" where
  "metric_params = [''epoch'', ''loss'', ''accuracy'', ''step'']"

definition metric_slot :: "'f pyval list \<Rightarrow> 'f pydict \<Rightarrow> nat \<Rightarrow> 'f pyval option" where
  "metric_slot args kwargs i =
     (if i < length args then Some (args ! i) else map_of kwargs (metric_params ! i))"

definition metric_call ::
  "'f pyval list \<Rightarrow> 'f pydict \<Rightarrow> 'f event list \<Rightarrow> pyexc option \<times> 'f event list" where
  "metric_call args kwargs out =
     (if 4 < length args
      then (Some (TypeError ''metric() takes from 2 to 4 positional arguments''), out)
      else if \<not> distinct (map fst kwargs)
      then (Some (TypeError ''metric() got multiple values for keyword argument''), out)
      else if filter (\<lambda>k. k \<in> fst ` set kwargs) (take (length args) metric_params) \<noteq> []
      then (Some (TypeError ''metric() got multiple values for argument''), out)
      else (case (metric_slot args kwargs 0, metric_slot args kwargs 1) of
              (Some epoch, Some loss) \<Rightarrow>
                metric epoch loss
                  (case metric_slot args kwargs 2 of None \<Rightarrow> PyNone | Some a \<Rightarrow> a)
                  (case metric_slot args kwargs 3 of None \<Rightarrow> PyNone | Some s \<Rightarrow> s)
                  (filter (\<lambda>kv. fst kv \<notin> set metric_params) kwargs) out
            | _ \<Rightarrow> (Some (TypeError ''metric() missing required positional argument''), out)))"

section \<open>Text and paths\<close>

text \<open>\<^verbatim>\<open>str(i)\<close> for an integer, as an f-string writes \<^verbatim>\<open>{i}\<close>.\<close>

definition digit_char :: "nat \<Rightarrow> char" where
  "digit_char d = ''0123456789'' ! d"

function str_nat :: "nat \<Rightarrow> string" where
  "str_nat n = (if n < 10 then [digit_char n] else str_nat (n div 10) @ [digit_char (n mod 10)])"
  by pat_completeness auto
termination
  by (relation "measure id") auto

declare str_nat.simps [simp del]

definition str_int :: "int \<Rightarrow> string" where
  "str_int i = (if i < 0 then CHR ''-'' # str_nat (nat (- i)) else str_nat (nat i))"

text \<open>
  \<^verbatim>\<open>pathlib.Path\<close> on POSIX: a root (empty, \<^verbatim>\<open>/\<close> or \<^verbatim>\<open>//\<close>) and the components left
  after dropping the empty ones and the dots. \<open>path_div p s\<close> is \<^verbatim>\<open>p / s\<close> and
  \<open>path_str p\<close> is \<^verbatim>\<open>str(p)\<close>.
\<close>

fun split_slash :: "string \<Rightarrow> string list" where
  "split_slash [] = [[]]"
| "split_slash (c # cs) =
     (if c = CHR ''/'' then [] # split_slash cs
      else (case split_slash cs of [] \<Rightarrow> [[c]] | w # ws \<Rightarrow> (c # w) # ws))"

fun join_slash :: "string list \<Rightarrow> string" where
  "join_slash [] = []"
| "join_slash [p] = p"
| "join_slash (p # q # ps) = p @ CHR ''/'' # join_slash (q # ps)"

datatype path = PosixPath (root: string) (parts: "string list")

definition path_root :: "string \<Rightarrow> string" where
  "path_root s =
     (if take 1 s = ''/'' then (if take 2 s = ''//'' \<and> take 3 s \<noteq> ''///'' then ''//'' else ''/'')
      else [])"

definition Path :: "string \<Rightarrow> path" where
  "Path s = PosixPath (path_root s) (filter (\<lambda>x. x \<noteq> [] \<and> x \<noteq> ''.'') (split_slash s))"

definition path_div :: "path \<Rightarrow> string \<Rightarrow> path" where
  "path_div p s =
     (if path_root s \<noteq> [] then Path s else PosixPath (root p) (parts p @ parts (Path s)))"

definition path_str :: "path \<Rightarrow> string" where
  "path_str p = (if root p = [] \<and> parts p = [] then ''.'' else root p @ join_slash (parts p))"

section \<open>Job controller\<close>

text \<open>The arguments of \<^verbatim>\<open>train_yolov8\<close>.\<close>

record 'f config =
  model_variant :: string
  dataset :: string
  epochs :: int
  batch_size :: int
  image_size :: int
  learning_rate :: 'f
  output_dir :: string
  resume :: bool
  device :: string

text \<open>
  What a hook reads from the trainer handle the engine passes to it: \<^verbatim>\<open>trainer.epoch\<close>,
  \<^verbatim>\<open>trainer.batch\<close>, \<^verbatim>\<open>len(trainer.train_loader)\<close>, \<^verbatim>\<open>trainer.metrics\<close> (a dictionary
  of floats) and \<^verbatim>\<open>trainer.save_dir\<close> (a \<^verbatim>\<open>Path\<close>).
\<close>

record 'f trainer =
  epoch :: int
  batch :: int
  train_loader_len :: nat
  metrics :: "string \<rightharpoonup> 'f"
  save_dir :: path

subsection \<open>Hooks\<close>

definition on_train_epoch_end ::
  "'f pyfloat \<Rightarrow> 'f config \<Rightarrow> 'f trainer \<Rightarrow> 'f event list \<Rightarrow> pyexc option \<times> 'f event list" where
  "on_train_epoch_end fl cfg trainer out =
     (let epoch = epoch trainer + 1;
          metrics = metrics trainer;
          box_loss = py_float fl (get0 metrics ''train/box_loss'');
          cls_loss = py_float fl (get0 metrics ''train/cls_loss'');
          dfl_loss = py_float fl (get0 metrics ''train/dfl_loss'');
          total_loss = fadd fl (fadd fl box_loss cls_loss) dfl_loss;
          map50 = py_float fl (get0 metrics ''metrics/mAP50(B)'');
          map50_95 = py_float fl (get0 metrics ''metrics/mAP50-95(B)'')
      in case metric (PyInt epoch) (PyFloat total_loss) (PyFloat map50) PyNone
                [(''mAP50'', PyFloat map50), (''mAP50_95'', PyFloat map50_95),
                 (''box_loss'', PyFloat box_loss), (''cls_loss'', PyFloat cls_loss),
                 (''dfl_loss'', PyFloat dfl_loss)] out of
           (Some e, out) \<Rightarrow> (Some e, out)
         | (None, out) \<Rightarrow>
             (None,
              log ''info''
                (''Epoch '' @ str_int epoch @ ''/'' @ str_int (epochs cfg)
                 @ '' - Loss: '' @ format_f fl 4 total_loss
                 @ '', mAP50: '' @ format_f fl 4 map50
                 @ '', mAP50-95: '' @ format_f fl 4 map50_95)
                (progress (PyInt epoch) (PyInt (epochs cfg)) PyNone PyNone out)))"

definition on_train_batch_end ::
  "'f config \<Rightarrow> 'f trainer \<Rightarrow> 'f event list \<Rightarrow> pyexc option \<times> 'f event list" where
  "on_train_batch_end cfg trainer out =
     (if batch trainer mod 10 = 0
      then (None, progress (PyInt (epoch trainer + 1)) (PyInt (epochs cfg))
                    (PyInt (batch trainer)) (PyInt (int (train_loader_len trainer))) out)
      else (None, out))"

definition on_model_save :: "'f trainer \<Rightarrow> 'f event list \<Rightarrow> pyexc option \<times> 'f event list" where
  "on_model_save trainer out =
     (let save_dir = save_dir trainer
      in (None, checkpoint (PyStr (path_str (path_div (path_div save_dir ''weights'') ''best.pt'')))
                  (PyInt (epoch trainer + 1)) out))"

subsection \<open>The training engine\<close>

text \<open>
  The engine (\<^verbatim>\<open>ultralytics\<close>) is outside the script. A run of the script meets it at the
  import, at \<^verbatim>\<open>YOLO(weights)\<close>, at \<^verbatim>\<open>model.add_callback\<close> and at the blocking
  \<^verbatim>\<open>model.train\<close>, which runs the registered callbacks of the events it reaches, in its own
  order, and then returns or raises. What the engine, the clock and the file system do in one
  run is the environment of that run; the theorems quantify over all of them.
\<close>

datatype hook = On_train_epoch_end | On_train_batch_end | On_model_save

record 'f train_args =
  arg_data :: string
  arg_epochs :: int
  arg_batch :: int
  arg_imgsz :: int
  arg_lr0 :: 'f
  arg_device :: string
  arg_project :: string
  arg_name :: string
  arg_exist_ok :: bool
  arg_verbose :: bool
  arg_plots :: bool
  arg_patience :: int

datatype 'f engine_call =
    YOLO string
  | Add_callback string hook
  | Train "'f train_args"

text \<open>
  The places of lines 157 to 172 where an exception can reach the script after
  \<^verbatim>\<open>model.train\<close> has returned: one before each statement writes, and one after line 172
  has written its line and before the \<^verbatim>\<open>try\<close> statement is left.
\<close>

datatype point =
    At_results
  | At_completion_log
  | At_final_log
  | At_best_weights
  | At_completed
  | After_completed

record 'f environment =
  import_ultralytics :: "pyexc option"
  time_start :: 'f
  time_end :: 'f
  exists_at_load :: "string set"
  load_model :: "string \<Rightarrow> pyexc option"
  hook_calls :: "(string \<times> 'f trainer) list"
  train_returns :: "pyexc + (string \<rightharpoonup> 'f) option"
  exists_at_end :: "string set"
  fault :: "point \<Rightarrow> pyexc option"

text \<open>
  \<open>import_ultralytics\<close>: the exception lines 63 to 68 raise, if any. \<open>time_start\<close>,
  \<open>time_end\<close>: \<^verbatim>\<open>time.time()\<close> at lines 74 and 157. \<open>exists_at_load\<close>,
  \<open>exists_at_end\<close>: the paths that exist at lines 82 and 169. \<open>load_model w\<close>: the
  exception \<^verbatim>\<open>YOLO(w)\<close> raises, if any. \<open>hook_calls\<close>: the events whose callbacks
  \<^verbatim>\<open>model.train\<close> runs, each with the trainer handle of that moment. \<open>train_returns\<close>:
  the exception \<^verbatim>\<open>model.train\<close> raises after them, or the \<^verbatim>\<open>results_dict\<close> of the
  value it returns (\<open>None\<close> when the value has no such attribute). \<open>fault p\<close>: the
  exception, if any, that reaches the script at the place \<open>p\<close>: one the statement there
  raises before it writes (a failed conversion, a broken pipe), or a
  \<^verbatim>\<open>KeyboardInterrupt\<close> delivered there. Before \<^verbatim>\<open>model.train\<close> the exceptions of
  the guarded block are those of \<^verbatim>\<open>YOLO(w)\<close>.

  A callback that raises ends \<^verbatim>\<open>model.train\<close> with that exception.
\<close>

fun call_hook ::
  "'f pyfloat \<Rightarrow> 'f config \<Rightarrow> hook \<Rightarrow> 'f trainer \<Rightarrow> 'f event list
     \<Rightarrow> pyexc option \<times> 'f event list" where
  "call_hook fl cfg On_train_epoch_end trainer out = on_train_epoch_end fl cfg trainer out"
| "call_hook fl cfg On_train_batch_end trainer out = on_train_batch_end cfg trainer out"
| "call_hook fl cfg On_model_save trainer out = on_model_save trainer out"

fun run_callbacks ::
  "'f pyfloat \<Rightarrow> 'f config \<Rightarrow> (string \<times> hook) list \<Rightarrow> string \<Rightarrow> 'f trainer \<Rightarrow> 'f event list
     \<Rightarrow> pyexc option \<times> 'f event list" where
  "run_callbacks fl cfg [] name trainer out = (None, out)"
| "run_callbacks fl cfg (cb # cbs) name trainer out =
     (if fst cb = name
      then (case call_hook fl cfg (snd cb) trainer out of
              (Some e, out) \<Rightarrow> (Some e, out)
            | (None, out) \<Rightarrow> run_callbacks fl cfg cbs name trainer out)
      else run_callbacks fl cfg cbs name trainer out)"

fun run_hook_calls ::
  "'f pyfloat \<Rightarrow> 'f config \<Rightarrow> (string \<times> hook) list \<Rightarrow> (string \<times> 'f trainer) list
     \<Rightarrow> 'f event list \<Rightarrow> pyexc option \<times> 'f event list" where
  "run_hook_calls fl cfg cbs [] out = (None, out)"
| "run_hook_calls fl cfg cbs (c # cs) out =
     (case run_callbacks fl cfg cbs (fst c) (snd c) out of
        (Some e, out) \<Rightarrow> (Some e, out)
      | (None, out) \<Rightarrow> run_hook_calls fl cfg cbs cs out)"

definition registered :: "(string \<times> hook) list" where
  "registered =
     [(''on_train_epoch_end'', On_train_epoch_end),
      (''on_train_batch_end'', On_train_batch_end),
      (''on_model_save'', On_model_save)]"

definition train_call :: "'f config \<Rightarrow> 'f engine_call" where
  "train_call cfg =
     Train \<lparr>arg_data = dataset cfg, arg_epochs = epochs cfg, arg_batch = batch_size cfg,
            arg_imgsz = image_size cfg, arg_lr0 = learning_rate cfg, arg_device = device cfg,
            arg_project = output_dir cfg, arg_name = ''train'', arg_exist_ok = True,
            arg_verbose = False, arg_plots = True, arg_patience = 0\<rparr>"

subsection \<open>\<^verbatim>\<open>train_yolov8\<close>\<close>

datatype status = Returned | SysExit int | Uncaught pyexc

record 'f run =
  stdout :: "'f event list"
  engine_calls :: "'f engine_call list"
  status :: status

text \<open>
  \<open>status\<close>: the function returned, or called \<^verbatim>\<open>sys.exit\<close> with that code, or let an
  exception through that no handler of the script takes.
\<close>

definition last_pt :: "'f config \<Rightarrow> string" where
  "last_pt cfg = output_dir cfg @ ''/weights/last.pt''"

definition best_weights :: "'f config \<Rightarrow> path" where
  "best_weights cfg =
     path_div (path_div (path_div (Path (output_dir cfg)) ''train'') ''weights'') ''best.pt''"

text \<open>Lines 82 to 87: the log line and the weights file \<^verbatim>\<open>YOLO\<close> is given.\<close>

definition choose_weights ::
  "'f config \<Rightarrow> 'f environment \<Rightarrow> 'f event list \<Rightarrow> 'f event list \<times> string" where
  "choose_weights cfg env out =
     (if resume cfg \<and> last_pt cfg \<in> exists_at_load env
      then (log ''info'' ''Resuming from last checkpoint...'' out, last_pt cfg)
      else (log ''info'' (''Loading pretrained '' @ model_variant cfg @ '' model...'') out,
            model_variant cfg @ ''.pt''))"

text \<open>
  Lines 157 to 172: what follows the return of \<^verbatim>\<open>model.train\<close>. An exception that
  reaches a place stops the block there, with the stream as written so far.
\<close>

definition report_completion ::
  "'f pyfloat \<Rightarrow> 'f config \<Rightarrow> 'f environment \<Rightarrow> 'f \<Rightarrow> (string \<rightharpoonup> 'f) option
     \<Rightarrow> 'f event list \<Rightarrow> pyexc option \<times> 'f event list" where
  "report_completion fl cfg env start_time results out =
     (case fault env At_results of
        Some e \<Rightarrow> (Some e, out)
      | None \<Rightarrow>
     (let duration = fsub fl (time_end env) start_time;
          final_metrics = (case results of Some d \<Rightarrow> d | None \<Rightarrow> Map.empty);
          final_map50 = py_float fl (get0 final_metrics ''metrics/mAP50(B)'');
          final_loss =
            py_float fl
              (py_add fl
                 (py_add fl (get0 final_metrics ''train/box_loss'')
                            (get0 final_metrics ''train/cls_loss''))
                 (get0 final_metrics ''train/dfl_loss''))
      in case fault env At_completion_log of
           Some e \<Rightarrow> (Some e, out)
         | None \<Rightarrow>
     (let out = log ''info'' (''Training completed in '' @ format_f fl 1 duration @ ''s'') out
      in case fault env At_final_log of
           Some e \<Rightarrow> (Some e, out)
         | None \<Rightarrow>
     (let out = log ''info'' (''Final mAP50: '' @ format_f fl 4 final_map50) out
      in case fault env At_best_weights of
           Some e \<Rightarrow> (Some e, out)
         | None \<Rightarrow>
     (let out = (if path_str (best_weights cfg) \<in> exists_at_end env
                 then checkpoint (PyStr (path_str (best_weights cfg))) (PyInt (epochs cfg)) out
                 else out)
      in case fault env At_completed of
           Some e \<Rightarrow> (Some e, out)
         | None \<Rightarrow>
     (let out = completed (PyFloat final_loss) (PyFloat final_map50) (PyFloat duration) out
      in (fault env After_completed, out)))))))"

text \<open>Lines 81 to 172, the body of the second \<^verbatim>\<open>try\<close>.\<close>

definition try_body ::
  "'f pyfloat \<Rightarrow> 'f config \<Rightarrow> 'f environment \<Rightarrow> 'f \<Rightarrow> 'f event list
     \<Rightarrow> pyexc option \<times> 'f event list \<times> 'f engine_call list" where
  "try_body fl cfg env start_time out =
     (let (out, weights) = choose_weights cfg env out;
          calls = [YOLO weights]
      in case load_model env weights of
           Some e \<Rightarrow> (Some e, out, calls)
         | None \<Rightarrow>
             (let calls = calls @ map (\<lambda>cb. Add_callback (fst cb) (snd cb)) registered;
                  out = log ''info'' ''Starting training...'' out;
                  calls = calls @ [train_call cfg]
              in case run_hook_calls fl cfg registered (hook_calls env) out of
                   (Some e, out) \<Rightarrow> (Some e, out, calls)
                 | (None, out) \<Rightarrow>
                     (case train_returns env of
                        Inl e \<Rightarrow> (Some e, out, calls)
                      | Inr results \<Rightarrow>
                          (case report_completion fl cfg env start_time results out of
                             (exc, out) \<Rightarrow> (exc, out, calls)))))"

text \<open>Lines 174 to 179: the handlers of the second \<^verbatim>\<open>try\<close>, in the order written.\<close>

definition handlers :: "pyexc \<Rightarrow> 'f event list \<Rightarrow> 'f engine_call list \<Rightarrow> 'f run" where
  "handlers e out calls =
     (if e = KeyboardInterrupt
      then \<lparr>stdout = log ''warning'' ''Training interrupted by user'' out,
            engine_calls = calls, status = SysExit 0\<rparr>
      else if is_Exception e
      then \<lparr>stdout = error (''Training failed: '' @ exc_str e) out,
            engine_calls = calls, status = SysExit 1\<rparr>
      else \<lparr>stdout = out, engine_calls = calls, status = Uncaught e\<rparr>)"

definition train_yolov8 :: "'f pyfloat \<Rightarrow> 'f config \<Rightarrow> 'f environment \<Rightarrow> 'f run" where
  "train_yolov8 fl cfg env =
     (case import_ultralytics env of
        Some e \<Rightarrow>
          (if is_ImportError e
           then \<lparr>stdout = error ''Ultralytics not installed. Run: pip install ultralytics'' [],
                 engine_calls = [], status = SysExit 1\<rparr>
           else \<lparr>stdout = [], engine_calls = [], status = Uncaught e\<rparr>)
      | None \<Rightarrow>
          (let start_time = time_start env;
               out = log ''info'' ''Initializing YOLOv8 training...'' [];
               out = log ''info''
                       (''Model: '' @ model_variant cfg @ '', Dataset: '' @ dataset cfg
                        @ '', Epochs: '' @ str_int (epochs cfg)) out;
               out = log ''info''
                       (''Batch size: '' @ str_int (batch_size cfg)
                        @ '', Image size: '' @ str_int (image_size cfg)
                        @ '', LR: '' @ str_float fl (learning_rate cfg)) out;
               out = log ''info'' (''Device: '' @ device cfg) out
           in case try_body fl cfg env start_time out of
                (None, out, calls) \<Rightarrow> \<lparr>stdout = out, engine_calls = calls, status = Returned\<rparr>
              | (Some e, out, calls) \<Rightarrow> handlers e out calls))"

subsection \<open>Reading the stream\<close>

definition event_type :: "'f event \<Rightarrow> 'f pyval option" where
  "event_type ev = map_of ev ''type''"

definition terminal :: "'f event \<Rightarrow> bool" where
  "terminal ev = (event_type ev = Some (PyStr ''completed'') \<or> event_type ev = Some (PyStr ''error''))"

text \<open>The weights file the test of line 82 selects, and the line it logs.\<close>

definition weights_path :: "'f config \<Rightarrow> 'f environment \<Rightarrow> string" where
  "weights_path cfg env =
     (if resume cfg \<and> last_pt cfg \<in> exists_at_load env then last_pt cfg
      else model_variant cfg @ ''.pt'')"

definition load_message :: "'f config \<Rightarrow> 'f environment \<Rightarrow> string" where
  "load_message cfg env =
     (if resume cfg \<and> last_pt cfg \<in> exists_at_load env then ''Resuming from last checkpoint...''
      else ''Loading pretrained '' @ model_variant cfg @ '' model...'')"

text \<open>
  The first exception to reach the script between the return of \<^verbatim>\<open>model.train\<close> and
  the writing of the \<^verbatim>\<open>completed\<close> line, and the first one of the whole guarded block up
  to that line.
\<close>

primrec first_fault :: "(point \<Rightarrow> pyexc option) \<Rightarrow> point list \<Rightarrow> pyexc option" where
  "first_fault f [] = None"
| "first_fault f (p # ps) = (case f p of Some e \<Rightarrow> Some e | None \<Rightarrow> first_fault f ps)"

definition completion_fault :: "'f environment \<Rightarrow> pyexc option" where
  "completion_fault env =
     first_fault (fault env)
       [At_results, At_completion_log, At_final_log, At_best_weights, At_completed]"

definition block_exception :: "'f config \<Rightarrow> 'f environment \<Rightarrow> pyexc option" where
  "block_exception cfg env =
     (case load_model env (weights_path cfg env) of
        Some e \<Rightarrow> Some e
      | None \<Rightarrow> (case train_returns env of Inl e \<Rightarrow> Some e | Inr results \<Rightarrow> completion_fault env))"

definition info_log :: "string \<Rightarrow> 'f event" where
  "info_log m = [(''type'', PyStr ''log''), (''level'', PyStr ''info''), (''message'', PyStr m)]"

definition warning_log :: "'f event \<Rightarrow> bool" where
  "warning_log ev =
     (event_type ev = Some (PyStr ''log'') \<and> map_of ev ''level'' = Some (PyStr ''warning''))"

text \<open>The four lines of lines 75 to 78.\<close>

definition init_logs :: "'f pyfloat \<Rightarrow> 'f config \<Rightarrow> 'f event list" where
  "init_logs fl cfg =
     [info_log ''Initializing YOLOv8 training...'',
      info_log (''Model: '' @ model_variant cfg @ '', Dataset: '' @ dataset cfg
                @ '', Epochs: '' @ str_int (epochs cfg)),
      info_log (''Batch size: '' @ str_int (batch_size cfg)
                @ '', Image size: '' @ str_int (image_size cfg)
                @ '', LR: '' @ str_float fl (learning_rate cfg)),
      info_log (''Device: '' @ device cfg)]"

text \<open>A stretch of the stream with no terminal event and no warning in it.\<close>

definition quiet :: "'f event list \<Rightarrow> bool" where
  "quiet evs = (filter terminal evs = [] \<and> filter warning_log evs = [])"

definition is_YOLO :: "'f engine_call \<Rightarrow> bool" where
  "is_YOLO c = (case c of YOLO w \<Rightarrow> True | _ \<Rightarrow> False)"

subsection \<open>Concrete runs\<close>

text \<open>
  Floats that are whole numbers of small size, on which Python's arithmetic is exact and
  \<^verbatim>\<open>.nf\<close> prints the digits, a point and n zeros. The definitions are run on these.
\<close>

definition int_floats :: "int pyfloat" where
  "int_floats =
     \<lparr>float_of_int = (\<lambda>i. i), fadd = (\<lambda>x y. x + y), fsub = (\<lambda>x y. x - y),
      format_f = (\<lambda>n x. str_int x @ CHR ''.'' # replicate n CHR ''0''),
      str_float = (\<lambda>x. str_int x @ ''.0'')\<rparr>"

definition cfg0 :: "int config" where
  "cfg0 =
     \<lparr>model_variant = ''yolov8n'', dataset = ''coco128'', epochs = 3, batch_size = 16,
      image_size = 640, learning_rate = 1, output_dir = ''runs/detect'', resume = True,
      device = ''mps''\<rparr>"

definition tr0 :: "int trainer" where
  "tr0 =
     \<lparr>epoch = 0, batch = 20, train_loader_len = 8,
      metrics = [''train/box_loss'' \<mapsto> 2, ''train/cls_loss'' \<mapsto> 3, ''train/dfl_loss'' \<mapsto> 1],
      save_dir = Path ''runs/detect/train''\<rparr>"

definition env0 :: "int environment" where
  "env0 =
     \<lparr>import_ultralytics = None, time_start = 100, time_end = 160, exists_at_load = {},
      load_model = (\<lambda>w. None),
      hook_calls = [(''on_train_batch_end'', tr0), (''on_train_epoch_end'', tr0),
                    (''on_model_save'', tr0)],
      train_returns = Inr (Some [''metrics/mAP50(B)'' \<mapsto> 1]),
      exists_at_end = {}, fault = (\<lambda>p. None)\<rparr>"

text \<open>
  Variations of \<open>env0\<close>: the engine is not installed; its import fails for another
  reason; \<^verbatim>\<open>model.train\<close> is interrupted; it ends by \<^verbatim>\<open>SystemExit\<close>; the stream breaks
  when line 172 writes; an interrupt arrives when line 172 has written.
\<close>

definition env_missing :: "int environment" where
  "env_missing = env0\<lparr>import_ultralytics := Some (ImportError ''No module named ultralytics'')\<rparr>"

definition env_broken :: "int environment" where
  "env_broken = env0\<lparr>import_ultralytics := Some (Exception ''libtorch_cpu.so: cannot open'')\<rparr>"

definition env_interrupted :: "int environment" where
  "env_interrupted = env0\<lparr>train_returns := Inl KeyboardInterrupt\<rparr>"

definition env_exit :: "int environment" where
  "env_exit = env0\<lparr>train_returns := Inl (BaseException ''1'')\<rparr>"

definition env_pipe :: "int environment" where
  "env_pipe = env0\<lparr>fault := (\<lambda>p. None)(At_completed := Some (Exception ''Broken pipe''))\<rparr>"

definition env_late_interrupt :: "int environment" where
  "env_late_interrupt = env0\<lparr>fault := (\<lambda>p. None)(After_completed := Some KeyboardInterrupt)\<rparr>"

section \<open>The records each emitter writes\<close>

lemma log_event:
  "log level message out =
     out @ [[(''type'', PyStr ''log''), (''level'', PyStr level), (''message'', PyStr message)]]"
  by (simp add: log_def emit_def dict_update_def)

lemma progress_event:
  "progress e t s ts out =
     out @ [[(''type'', PyStr ''progress''), (''epoch'', e), (''totalEpochs'', t),
             (''step'', s), (''totalSteps'', ts)]]"
  by (simp add: progress_def emit_def dict_update_def)

lemma checkpoint_event:
  "checkpoint p e out = out @ [[(''type'', PyStr ''checkpoint''), (''path'', p), (''epoch'', e)]]"
  by (simp add: checkpoint_def emit_def dict_update_def)

lemma completed_event:
  "completed l a d out =
     out @ [[(''type'', PyStr ''completed''), (''finalLoss'', l), (''finalAccuracy'', a),
             (''duration'', d)]]"
  by (simp add: completed_def emit_def dict_update_def)

lemma error_event:
  "error message out = out @ [[(''type'', PyStr ''error''), (''message'', PyStr message)]]"
  by (simp add: error_def emit_def dict_update_def)

lemma on_train_epoch_end_events:
  "on_train_epoch_end fl cfg tr out =
     (None, out @
       [[(''type'', PyStr ''metric''), (''epoch'', PyInt (epoch tr + 1)),
         (''loss'',
          PyFloat (fadd fl (fadd fl (py_float fl (get0 (metrics tr) ''train/box_loss''))
                                    (py_float fl (get0 (metrics tr) ''train/cls_loss'')))
                           (py_float fl (get0 (metrics tr) ''train/dfl_loss'')))),
         (''accuracy'', PyFloat (py_float fl (get0 (metrics tr) ''metrics/mAP50(B)''))),
         (''mAP50'', PyFloat (py_float fl (get0 (metrics tr) ''metrics/mAP50(B)''))),
         (''mAP50_95'', PyFloat (py_float fl (get0 (metrics tr) ''metrics/mAP50-95(B)''))),
         (''box_loss'', PyFloat (py_float fl (get0 (metrics tr) ''train/box_loss''))),
         (''cls_loss'', PyFloat (py_float fl (get0 (metrics tr) ''train/cls_loss''))),
         (''dfl_loss'', PyFloat (py_float fl (get0 (metrics tr) ''train/dfl_loss'')))],
        [(''type'', PyStr ''progress''), (''epoch'', PyInt (epoch tr + 1)),
         (''totalEpochs'', PyInt (epochs cfg)), (''step'', PyNone), (''totalSteps'', PyNone)],
        [(''type'', PyStr ''log''), (''level'', PyStr ''info''),
         (''message'',
          PyStr (''Epoch '' @ str_int (epoch tr + 1) @ ''/'' @ str_int (epochs cfg)
            @ '' - Loss: ''
            @ format_f fl 4
                (fadd fl (fadd fl (py_float fl (get0 (metrics tr) ''train/box_loss''))
                                  (py_float fl (get0 (metrics tr) ''train/cls_loss'')))
                         (py_float fl (get0 (metrics tr) ''train/dfl_loss'')))
            @ '', mAP50: '' @ format_f fl 4 (py_float fl (get0 (metrics tr) ''metrics/mAP50(B)''))
            @ '', mAP50-95: ''
            @ format_f fl 4 (py_float fl (get0 (metrics tr) ''metrics/mAP50-95(B)''))))]])"
  by (simp add: on_train_epoch_end_def metric_def emit_unpacked_def emit_def dict_update_def
      log_event progress_event Let_def)

lemma on_train_batch_end_events:
  "on_train_batch_end cfg tr out =
     (None, if batch tr mod 10 = 0
            then out @ [[(''type'', PyStr ''progress''), (''epoch'', PyInt (epoch tr + 1)),
                         (''totalEpochs'', PyInt (epochs cfg)), (''step'', PyInt (batch tr)),
                         (''totalSteps'', PyInt (int (train_loader_len tr)))]]
            else out)"
  by (simp add: on_train_batch_end_def progress_event)

lemma on_model_save_events:
  "on_model_save tr out =
     (None, out @ [[(''type'', PyStr ''checkpoint''),
                    (''path'',
                     PyStr (path_str (path_div (path_div (save_dir tr) ''weights'') ''best.pt''))),
                    (''epoch'', PyInt (epoch tr + 1))]])"
  by (simp add: on_model_save_def checkpoint_event)

section \<open>What the callbacks add to the stream\<close>

lemma quiet_Nil: "quiet []"
  by (simp add: quiet_def)

lemma quiet_append: "quiet (xs @ ys) = (quiet xs \<and> quiet ys)"
  by (auto simp add: quiet_def)

lemma quiet_Cons: "quiet (x # y # ys) = (quiet [x] \<and> quiet (y # ys))"
  using quiet_append [of "[x]" "y # ys"] by simp

lemma quiet_info_log:
  "quiet [[(''type'', PyStr ''log''), (''level'', PyStr ''info''), (''message'', m)]]"
  by (simp add: quiet_def terminal_def warning_log_def event_type_def)

lemma quiet_checkpoint: "quiet [[(''type'', PyStr ''checkpoint''), (''path'', p), (''epoch'', e)]]"
  by (simp add: quiet_def terminal_def warning_log_def event_type_def)

lemma call_hook_quiet:
  "\<exists>evs. call_hook fl cfg h tr out = (None, out @ evs) \<and> quiet evs"
proof (cases h)
  case On_train_epoch_end
  then show ?thesis
    by (simp add: on_train_epoch_end_events quiet_def terminal_def warning_log_def event_type_def)
next
  case On_train_batch_end
  then show ?thesis
    by (simp add: on_train_batch_end_events quiet_def terminal_def warning_log_def event_type_def)
next
  case On_model_save
  then show ?thesis
    by (simp add: on_model_save_events quiet_def terminal_def warning_log_def event_type_def)
qed

lemma run_callbacks_quiet:
  "\<exists>evs. run_callbacks fl cfg cbs name tr out = (None, out @ evs) \<and> quiet evs"
proof (induction cbs arbitrary: out)
  case Nil
  then show ?case by (simp add: quiet_Nil)
next
  case (Cons cb cbs)
  obtain e1 where h: "call_hook fl cfg (snd cb) tr out = (None, out @ e1)" and q1: "quiet e1"
    using call_hook_quiet by blast
  obtain e2 where r: "run_callbacks fl cfg cbs name tr (out @ e1) = (None, (out @ e1) @ e2)"
    and q2: "quiet e2"
    using Cons.IH by blast
  show ?case
  proof (cases "fst cb = name")
    case True
    with h r q1 q2 show ?thesis
      by (auto simp add: quiet_append intro!: exI [of _ "e1 @ e2"])
  next
    case False
    with Cons.IH [of out] show ?thesis by simp
  qed
qed

lemma run_hook_calls_quiet:
  "\<exists>evs. run_hook_calls fl cfg cbs cs out = (None, out @ evs) \<and> quiet evs"
proof (induction cs arbitrary: out)
  case Nil
  then show ?case by (simp add: quiet_Nil)
next
  case (Cons c cs)
  obtain e1 where h: "run_callbacks fl cfg cbs (fst c) (snd c) out = (None, out @ e1)"
    and q1: "quiet e1"
    using run_callbacks_quiet by blast
  obtain e2 where r: "run_hook_calls fl cfg cbs cs (out @ e1) = (None, (out @ e1) @ e2)"
    and q2: "quiet e2"
    using Cons.IH by blast
  from h r q1 q2 show ?case
    by (auto simp add: quiet_append intro!: exI [of _ "e1 @ e2"])
qed

section \<open>The guarded block\<close>

lemma quiet_info: "quiet [info_log m]"
  by (simp add: info_log_def quiet_def terminal_def warning_log_def event_type_def)

lemma log_info: "log ''info'' m out = out @ [info_log m]"
  by (simp add: log_event info_log_def)

lemma choose_weights_eq:
  "choose_weights cfg env out = (out @ [info_log (load_message cfg env)], weights_path cfg env)"
  by (simp add: choose_weights_def load_message_def weights_path_def log_info)

lemma report_completion_raises:
  assumes "completion_fault env = Some e"
  shows "\<exists>post. quiet post \<and> report_completion fl cfg env st res out = (Some e, out @ post)"
proof -
  from assms consider
      (a) "fault env At_results = Some e"
    | (b) "fault env At_results = None" "fault env At_completion_log = Some e"
    | (c) "fault env At_results = None" "fault env At_completion_log = None"
          "fault env At_final_log = Some e"
    | (d) "fault env At_results = None" "fault env At_completion_log = None"
          "fault env At_final_log = None" "fault env At_best_weights = Some e"
    | (e) "fault env At_results = None" "fault env At_completion_log = None"
          "fault env At_final_log = None" "fault env At_best_weights = None"
          "fault env At_completed = Some e"
    by (auto simp add: completion_fault_def split: option.splits)
  note cases = this
  define m1 where
    "m1 = ''Training completed in '' @ format_f fl 1 (fsub fl (time_end env) st) @ ''s''"
  define m2 where
    "m2 = ''Final mAP50: ''
       @ format_f fl 4
           (py_float fl (get0 (case res of Some d \<Rightarrow> d | None \<Rightarrow> Map.empty)
              ''metrics/mAP50(B)''))"
  define ck :: "'a event list" where
    "ck = (if path_str (best_weights cfg) \<in> exists_at_end env
           then [[(''type'', PyStr ''checkpoint''), (''path'', PyStr (path_str (best_weights cfg))),
                  (''epoch'', PyInt (epochs cfg))]]
           else [])"
  have q2: "quiet [info_log m1, info_log m2]"
    by (simp add: quiet_Cons quiet_info)
  have qck: "quiet ck"
    by (simp add: ck_def quiet_checkpoint quiet_Nil)
  from cases show ?thesis
  proof cases
    case a
    then have "report_completion fl cfg env st res out = (Some e, out @ [])"
      by (simp add: report_completion_def)
    then show ?thesis using quiet_Nil by blast
  next
    case b
    then have "report_completion fl cfg env st res out = (Some e, out @ [])"
      by (simp add: report_completion_def Let_def)
    then show ?thesis using quiet_Nil by blast
  next
    case c
    then have "report_completion fl cfg env st res out = (Some e, out @ [info_log m1])"
      by (simp add: report_completion_def Let_def log_info m1_def)
    then show ?thesis using quiet_info by blast
  next
    case d
    then have "report_completion fl cfg env st res out
        = (Some e, out @ [info_log m1, info_log m2])"
      by (simp add: report_completion_def Let_def log_info m1_def m2_def)
    then show ?thesis using q2 by blast
  next
    case e
    then have "report_completion fl cfg env st res out
        = (Some e, out @ ([info_log m1, info_log m2] @ ck))"
      by (simp add: report_completion_def Let_def log_info checkpoint_event m1_def m2_def ck_def)
    moreover have "quiet ([info_log m1, info_log m2] @ ck)"
      using q2 qck by (simp only: quiet_append)
    ultimately show ?thesis by blast
  qed
qed

lemma report_completion_completes:
  assumes "completion_fault env = None"
  shows "\<exists>post c. quiet post \<and> event_type c = Some (PyStr ''completed'') \<and>
     report_completion fl cfg env st res out = (fault env After_completed, out @ post @ [c])"
proof -
  define d where "d = fsub fl (time_end env) st"
  define fm where "fm = (case res of Some d \<Rightarrow> d | None \<Rightarrow> Map.empty)"
  define post :: "'a event list" where "post =
      [info_log (''Training completed in '' @ format_f fl 1 d @ ''s''),
       info_log (''Final mAP50: '' @ format_f fl 4 (py_float fl (get0 fm ''metrics/mAP50(B)'')))]
      @ (if path_str (best_weights cfg) \<in> exists_at_end env
         then [[(''type'', PyStr ''checkpoint''), (''path'', PyStr (path_str (best_weights cfg))),
                (''epoch'', PyInt (epochs cfg))]]
         else [])"
  define c :: "'a event" where "c =
      [(''type'', PyStr ''completed''),
       (''finalLoss'', PyFloat (py_float fl
          (py_add fl (py_add fl (get0 fm ''train/box_loss'') (get0 fm ''train/cls_loss''))
             (get0 fm ''train/dfl_loss'')))),
       (''finalAccuracy'', PyFloat (py_float fl (get0 fm ''metrics/mAP50(B)''))),
       (''duration'', PyFloat d)]"
  from assms have f: "fault env At_results = None" "fault env At_completion_log = None"
    "fault env At_final_log = None" "fault env At_best_weights = None"
    "fault env At_completed = None"
    by (simp_all add: completion_fault_def split: option.splits)
  have "report_completion fl cfg env st res out = (fault env After_completed, out @ post @ [c])"
    unfolding report_completion_def Let_def d_def [symmetric] fm_def [symmetric]
    by (simp add: f log_info checkpoint_event completed_event post_def c_def)
  moreover have "quiet post"
    by (simp add: post_def quiet_append quiet_Cons quiet_info quiet_checkpoint quiet_Nil)
  moreover have "event_type c = Some (PyStr ''completed'')"
    by (simp add: c_def event_type_def)
  ultimately show ?thesis by blast
qed

lemma try_body_load_raises:
  assumes "load_model env (weights_path cfg env) = Some e"
  shows "try_body fl cfg env st out =
           (Some e, out @ [info_log (load_message cfg env)], [YOLO (weights_path cfg env)])"
  using assms by (simp add: try_body_def choose_weights_eq)

lemma try_body_train_raises:
  assumes "load_model env (weights_path cfg env) = None" and "train_returns env = Inl e"
  shows "\<exists>evs. quiet evs \<and>
           try_body fl cfg env st out =
             (Some e, out @ info_log (load_message cfg env) # evs,
              YOLO (weights_path cfg env)
                # map (\<lambda>cb. Add_callback (fst cb) (snd cb)) registered @ [train_call cfg])"
proof -
  define pre :: "'a event list" where
    "pre = [info_log (load_message cfg env), info_log ''Starting training...'']"
  obtain evs where r: "run_hook_calls fl cfg registered (hook_calls env) (out @ pre)
      = (None, (out @ pre) @ evs)" and q: "quiet evs"
    using run_hook_calls_quiet by blast
  have "try_body fl cfg env st out =
      (Some e, out @ info_log (load_message cfg env) # (info_log ''Starting training...'' # evs),
       YOLO (weights_path cfg env)
         # map (\<lambda>cb. Add_callback (fst cb) (snd cb)) registered @ [train_call cfg])"
    using assms r by (simp add: try_body_def choose_weights_eq log_info pre_def)
  moreover have "quiet (info_log ''Starting training...'' # evs)"
    using q quiet_append [of "[info_log ''Starting training...'']" evs] by (simp add: quiet_info)
  ultimately show ?thesis by blast
qed

lemma try_body_completion_raises:
  assumes "load_model env (weights_path cfg env) = None" and "train_returns env = Inr res"
    and "completion_fault env = Some e"
  shows "\<exists>evs. quiet evs \<and>
           try_body fl cfg env st out =
             (Some e, out @ info_log (load_message cfg env) # evs,
              YOLO (weights_path cfg env)
                # map (\<lambda>cb. Add_callback (fst cb) (snd cb)) registered @ [train_call cfg])"
proof -
  define pre :: "'a event list" where
    "pre = [info_log (load_message cfg env), info_log ''Starting training...'']"
  obtain evs where r: "run_hook_calls fl cfg registered (hook_calls env) (out @ pre)
      = (None, (out @ pre) @ evs)" and q: "quiet evs"
    using run_hook_calls_quiet by blast
  obtain post where qpost: "quiet post"
    and rc: "report_completion fl cfg env st res ((out @ pre) @ evs)
             = (Some e, ((out @ pre) @ evs) @ post)"
    using report_completion_raises [OF assms(3), of fl cfg st res "(out @ pre) @ evs"] by auto
  have "try_body fl cfg env st out =
      (Some e,
       out @ info_log (load_message cfg env) # (info_log ''Starting training...'' # evs @ post),
       YOLO (weights_path cfg env)
         # map (\<lambda>cb. Add_callback (fst cb) (snd cb)) registered @ [train_call cfg])"
    using assms(1,2) r rc by (simp add: try_body_def choose_weights_eq log_info pre_def)
  moreover have "quiet (info_log ''Starting training...'' # evs @ post)"
    using q qpost quiet_append [of "[info_log ''Starting training...'']" "evs @ post"]
    by (simp add: quiet_info quiet_append)
  ultimately show ?thesis by blast
qed

lemma try_body_completes:
  assumes "load_model env (weights_path cfg env) = None" and "train_returns env = Inr res"
    and "completion_fault env = None"
  shows "\<exists>evs c. quiet evs \<and> event_type c = Some (PyStr ''completed'') \<and>
           try_body fl cfg env st out =
             (fault env After_completed, out @ info_log (load_message cfg env) # evs @ [c],
              YOLO (weights_path cfg env)
                # map (\<lambda>cb. Add_callback (fst cb) (snd cb)) registered @ [train_call cfg])"
proof -
  define pre :: "'a event list" where
    "pre = [info_log (load_message cfg env), info_log ''Starting training...'']"
  obtain evs where r: "run_hook_calls fl cfg registered (hook_calls env) (out @ pre)
      = (None, (out @ pre) @ evs)" and q: "quiet evs"
    using run_hook_calls_quiet by blast
  obtain post c where qpost: "quiet post" and c: "event_type c = Some (PyStr ''completed'')"
    and rc: "report_completion fl cfg env st res ((out @ pre) @ evs)
             = (fault env After_completed, ((out @ pre) @ evs) @ post @ [c])"
    using report_completion_completes [OF assms(3), of fl cfg st res "(out @ pre) @ evs"] by auto
  have "try_body fl cfg env st out =
      (fault env After_completed,
       out @ info_log (load_message cfg env) # (info_log ''Starting training...'' # evs @ post) @ [c],
       YOLO (weights_path cfg env)
         # map (\<lambda>cb. Add_callback (fst cb) (snd cb)) registered @ [train_call cfg])"
    using assms(1,2) r rc by (simp add: try_body_def choose_weights_eq log_info pre_def)
  moreover have "quiet (info_log ''Starting training...'' # evs @ post)"
    using q qpost quiet_append [of "[info_log ''Starting training...'']" "evs @ post"]
    by (simp add: quiet_info quiet_append)
  ultimately show ?thesis
    using c by blast
qed

lemma try_body_raises:
  assumes "block_exception cfg env = Some e"
  shows "\<exists>evs calls. quiet evs \<and>
           try_body fl cfg env st out =
             (Some e, out @ info_log (load_message cfg env) # evs,
              YOLO (weights_path cfg env) # calls)"
proof (cases "load_model env (weights_path cfg env)")
  case (Some e')
  with assms have "e' = e"
    by (simp add: block_exception_def)
  with Some show ?thesis
    using try_body_load_raises [of env cfg e fl st out] quiet_Nil by blast
next
  case loaded: None
  show ?thesis
  proof (cases "train_returns env")
    case (Inl e')
    with assms loaded have "e' = e"
      by (simp add: block_exception_def)
    with Inl loaded show ?thesis
      using try_body_train_raises [of env cfg e fl st out] by blast
  next
    case (Inr res)
    with assms loaded have "completion_fault env = Some e"
      by (simp add: block_exception_def)
    from try_body_completion_raises [OF loaded Inr this, of fl st out] show ?thesis
      by blast
  qed
qed

lemma try_body_returns:
  assumes "block_exception cfg env = None"
  shows "\<exists>evs c. quiet evs \<and> event_type c = Some (PyStr ''completed'') \<and>
           try_body fl cfg env st out =
             (fault env After_completed, out @ info_log (load_message cfg env) # evs @ [c],
              YOLO (weights_path cfg env)
                # map (\<lambda>cb. Add_callback (fst cb) (snd cb)) registered @ [train_call cfg])"
proof -
  from assms have loaded: "load_model env (weights_path cfg env) = None"
    by (simp add: block_exception_def split: option.splits)
  with assms obtain res where res: "train_returns env = Inr res"
    and cf: "completion_fault env = None"
    by (cases "train_returns env") (simp_all add: block_exception_def)
  from try_body_completes [OF loaded res cf] show ?thesis .
qed

lemma try_body_shape:
  "\<exists>exc evs. try_body fl cfg env st out =
     (exc, out @ info_log (load_message cfg env) # evs,
      YOLO (weights_path cfg env)
        # (if load_model env (weights_path cfg env) = None
           then map (\<lambda>cb. Add_callback (fst cb) (snd cb)) registered @ [train_call cfg]
           else []))"
proof (cases "load_model env (weights_path cfg env)")
  case (Some e)
  from try_body_load_raises [OF Some, of fl st out] Some show ?thesis
    by simp
next
  case loaded: None
  show ?thesis
  proof (cases "block_exception cfg env")
    case None
    obtain evs c where "try_body fl cfg env st out =
        (fault env After_completed, out @ info_log (load_message cfg env) # (evs @ [c]),
         YOLO (weights_path cfg env)
           # map (\<lambda>cb. Add_callback (fst cb) (snd cb)) registered @ [train_call cfg])"
      using try_body_returns [OF None, of fl st out] by auto
    with loaded show ?thesis
      by simp
  next
    case (Some e)
    have cases: "train_returns env = Inl e
        \<or> (\<exists>res. train_returns env = Inr res \<and> completion_fault env = Some e)"
      using Some loaded by (cases "train_returns env") (simp_all add: block_exception_def)
    have "\<exists>evs. try_body fl cfg env st out =
        (Some e, out @ info_log (load_message cfg env) # evs,
         YOLO (weights_path cfg env)
           # map (\<lambda>cb. Add_callback (fst cb) (snd cb)) registered @ [train_call cfg])"
      using cases
    proof
      assume "train_returns env = Inl e"
      from try_body_train_raises [OF loaded this, of fl st out] show ?thesis
        by blast
    next
      assume "\<exists>res. train_returns env = Inr res \<and> completion_fault env = Some e"
      then obtain res where "train_returns env = Inr res" and "completion_fault env = Some e"
        by blast
      from try_body_completion_raises [OF loaded this, of fl st out] show ?thesis
        by blast
    qed
    with loaded show ?thesis
      by auto
  qed
qed

section \<open>Runs\<close>

lemma quiet_init_logs: "quiet (init_logs fl cfg)"
  by (simp add: init_logs_def quiet_Cons quiet_info)

lemma train_yolov8_imported:
  assumes "import_ultralytics env = None"
  shows "train_yolov8 fl cfg env =
           (case try_body fl cfg env (time_start env) (init_logs fl cfg) of
              (None, out, calls) \<Rightarrow> \<lparr>stdout = out, engine_calls = calls, status = Returned\<rparr>
            | (Some e, out, calls) \<Rightarrow> handlers e out calls)"
  using assms by (simp add: train_yolov8_def log_info init_logs_def)

lemma run_raises:
  assumes "import_ultralytics env = None"
    and "load_model env (weights_path cfg env) = Some e
         \<or> load_model env (weights_path cfg env) = None \<and> train_returns env = Inl e"
  shows "\<exists>evs calls. quiet evs \<and>
           train_yolov8 fl cfg env =
             handlers e (init_logs fl cfg @ info_log (load_message cfg env) # evs)
               (YOLO (weights_path cfg env) # calls)"
proof -
  from assms(2) have "\<exists>evs calls. quiet evs \<and>
      try_body fl cfg env (time_start env) (init_logs fl cfg) =
        (Some e, init_logs fl cfg @ info_log (load_message cfg env) # evs,
         YOLO (weights_path cfg env) # calls)"
  proof
    assume "load_model env (weights_path cfg env) = Some e"
    then show ?thesis
      using try_body_load_raises [of env cfg e fl "time_start env" "init_logs fl cfg"] quiet_Nil
      by blast
  next
    assume "load_model env (weights_path cfg env) = None \<and> train_returns env = Inl e"
    then show ?thesis
      using try_body_train_raises [of env cfg e fl "time_start env" "init_logs fl cfg"]
      by blast
  qed
  then obtain evs calls where q: "quiet evs"
    and t: "try_body fl cfg env (time_start env) (init_logs fl cfg) =
        (Some e, init_logs fl cfg @ info_log (load_message cfg env) # evs,
         YOLO (weights_path cfg env) # calls)"
    by blast
  from t assms(1) have "train_yolov8 fl cfg env =
      handlers e (init_logs fl cfg @ info_log (load_message cfg env) # evs)
        (YOLO (weights_path cfg env) # calls)"
    by (simp add: train_yolov8_imported)
  with q show ?thesis by blast
qed

lemma run_block_raises:
  assumes "import_ultralytics env = None" and "block_exception cfg env = Some e"
  shows "\<exists>evs calls. quiet evs \<and>
           train_yolov8 fl cfg env =
             handlers e (init_logs fl cfg @ info_log (load_message cfg env) # evs)
               (YOLO (weights_path cfg env) # calls)"
proof -
  obtain evs calls where q: "quiet evs"
    and t: "try_body fl cfg env (time_start env) (init_logs fl cfg) =
        (Some e, init_logs fl cfg @ info_log (load_message cfg env) # evs,
         YOLO (weights_path cfg env) # calls)"
    using try_body_raises [OF assms(2), of fl "time_start env" "init_logs fl cfg"] by blast
  from t assms(1) have "train_yolov8 fl cfg env =
      handlers e (init_logs fl cfg @ info_log (load_message cfg env) # evs)
        (YOLO (weights_path cfg env) # calls)"
    by (simp add: train_yolov8_imported)
  with q show ?thesis by blast
qed

lemma run_completes:
  assumes "import_ultralytics env = None" and "block_exception cfg env = None"
    and "fault env After_completed = None"
  shows "\<exists>evs c. quiet evs \<and> event_type c = Some (PyStr ''completed'') \<and>
           train_yolov8 fl cfg env =
             \<lparr>stdout = init_logs fl cfg @ info_log (load_message cfg env) # evs @ [c],
              engine_calls = YOLO (weights_path cfg env)
                # map (\<lambda>cb. Add_callback (fst cb) (snd cb)) registered @ [train_call cfg],
              status = Returned\<rparr>"
proof -
  obtain evs c where q: "quiet evs" and c: "event_type c = Some (PyStr ''completed'')"
    and t: "try_body fl cfg env (time_start env) (init_logs fl cfg) =
        (None, init_logs fl cfg @ info_log (load_message cfg env) # evs @ [c],
         YOLO (weights_path cfg env)
           # map (\<lambda>cb. Add_callback (fst cb) (snd cb)) registered @ [train_call cfg])"
    using try_body_returns [OF assms(2), of fl "time_start env" "init_logs fl cfg"]
    unfolding assms(3) by blast
  from t assms(1) have "train_yolov8 fl cfg env =
      \<lparr>stdout = init_logs fl cfg @ info_log (load_message cfg env) # evs @ [c],
       engine_calls = YOLO (weights_path cfg env)
         # map (\<lambda>cb. Add_callback (fst cb) (snd cb)) registered @ [train_call cfg],
       status = Returned\<rparr>"
    by (simp add: train_yolov8_imported)
  with q c show ?thesis by blast
qed

lemma handlers_stream:
  "\<exists>fin. stdout (handlers e out calls) = out @ fin
     \<and> (fin = [] \<or> (\<exists>x. fin = [x])) \<and> engine_calls (handlers e out calls) = calls"
  by (simp add: handlers_def log_event error_event)

section \<open>Dictionaries\<close>

lemma dict_update_Cons: "dict_update d (kv # e) = dict_update (AList.update (fst kv) (snd kv) d) e"
  by (simp add: dict_update_def)

lemma dict_update_lookup:
  "distinct (map fst e) \<Longrightarrow>
     map_of (dict_update d e) k = (case map_of e k of Some v \<Rightarrow> Some v | None \<Rightarrow> map_of d k)"
proof (induction e arbitrary: d)
  case Nil
  then show ?case by (simp add: dict_update_def)
next
  case (Cons kv e)
  then have "fst kv \<notin> fst ` set e" and "distinct (map fst e)"
    by auto
  then have "map_of e (fst kv) = None"
    by (simp add: map_of_eq_None_iff)
  with Cons show ?case
    by (cases kv) (auto simp add: dict_update_Cons AList.update_conv' split: option.splits)
qed

lemma dict_update_distinct:
  "distinct (map fst d) \<Longrightarrow> distinct (map fst (dict_update d e))"
proof (induction e arbitrary: d)
  case Nil
  then show ?case by (simp add: dict_update_def)
next
  case (Cons kv e)
  then show ?case
    by (simp add: dict_update_Cons AList.distinct_update)
qed

lemma metric_emits:
  assumes d: "distinct (map fst extra)"
    and k: "fst ` set extra \<inter> set metric_params = {}"
    and m: "metric ep ls acc stp extra out = (None, out')"
  shows "\<exists>ev. out' = out @ [ev]
           \<and> map_of ev ''epoch'' = Some ep \<and> map_of ev ''loss'' = Some ls
           \<and> map_of ev ''accuracy'' = (if acc \<noteq> PyNone then Some acc else None)
           \<and> map_of ev ''step'' = (if stp \<noteq> PyNone then Some stp else None)
           \<and> (\<forall>kv \<in> set extra. map_of ev (fst kv) = Some (snd kv))"
proof -
  define data0 where "data0 =
      (let data = [(''epoch'', ep), (''loss'', ls)];
           data = (if acc \<noteq> PyNone then AList.update ''accuracy'' acc data else data)
       in (if stp \<noteq> PyNone then AList.update ''step'' stp data else data))"
  define data where "data = dict_update data0 extra"
  define ev where "ev = dict_update [(''type'', PyStr ''metric'')] data"
  have m0: "map_of data0 ''epoch'' = Some ep" "map_of data0 ''loss'' = Some ls"
    "map_of data0 ''accuracy'' = (if acc \<noteq> PyNone then Some acc else None)"
    "map_of data0 ''step'' = (if stp \<noteq> PyNone then Some stp else None)"
    by (simp_all add: data0_def Let_def)
  have d0: "distinct (map fst data0)"
    by (simp add: data0_def Let_def)
  have dd: "distinct (map fst data)"
    unfolding data_def using d0 by (rule dict_update_distinct)
  have none: "map_of extra p = None" if "p \<in> set metric_params" for p
    using k that by (auto simp add: map_of_eq_None_iff)
  have data_p: "map_of data p = map_of data0 p" if "p \<in> set metric_params" for p
    using none [OF that] by (simp add: data_def dict_update_lookup [OF d])
  have data_x: "map_of data (fst kv) = Some (snd kv)" if "kv \<in> set extra" for kv
  proof -
    have "map_of extra (fst kv) = Some (snd kv)"
      using map_of_is_SomeI [OF d, of "fst kv" "snd kv"] that by simp
    then show ?thesis
      by (simp add: data_def dict_update_lookup [OF d])
  qed
  have ev_lookup: "map_of ev q = Some v" if "map_of data q = Some v" for q v
    using that by (simp add: ev_def dict_update_lookup [OF dd])
  have ev_none: "map_of ev q = None" if "map_of data q = None" and "q \<noteq> ''type''" for q
    using that by (simp add: ev_def dict_update_lookup [OF dd])
  have "metric ep ls acc stp extra out =
      (if ''event_type'' \<in> fst ` set data
       then (Some (TypeError ''emit() got multiple values for argument event_type''), out)
       else (None, out @ [ev]))"
    by (simp add: metric_def emit_unpacked_def emit_def data_def data0_def ev_def Let_def)
  with m have out': "out' = out @ [ev]"
    by (simp split: if_splits)
  have "map_of ev ''epoch'' = Some ep" "map_of ev ''loss'' = Some ls"
    using data_p [of "''epoch''"] data_p [of "''loss''"] m0 ev_lookup
    by (simp_all add: metric_params_def)
  moreover have "map_of ev ''accuracy'' = (if acc \<noteq> PyNone then Some acc else None)"
    using data_p [of "''accuracy''"] m0(3) ev_lookup [of "''accuracy''"] ev_none [of "''accuracy''"]
    by (simp add: metric_params_def)
  moreover have "map_of ev ''step'' = (if stp \<noteq> PyNone then Some stp else None)"
    using data_p [of "''step''"] m0(4) ev_lookup [of "''step''"] ev_none [of "''step''"]
    by (simp add: metric_params_def)
  moreover have "\<forall>kv \<in> set extra. map_of ev (fst kv) = Some (snd kv)"
    using data_x ev_lookup by blast
  ultimately show ?thesis
    using out' by blast
qed

section \<open>Claims\<close>

lemma stream_closed:
  assumes "quiet pre" and "fin = [] \<or> (\<exists>x. fin = [x])"
  shows "length (filter terminal (pre @ fin)) \<le> 1 \<and> filter terminal (butlast (pre @ fin)) = []"
proof -
  from assms(1) have p: "filter terminal pre = []"
    by (simp add: quiet_def)
  then have "filter terminal (butlast pre) = []"
    by (auto simp add: filter_empty_conv dest: in_set_butlastD)
  with p assms(2) show ?thesis
    by (auto simp add: butlast_append)
qed

lemma handlers_interrupt:
  "handlers KeyboardInterrupt out calls =
     \<lparr>stdout = out @ [[(''type'', PyStr ''log''), (''level'', PyStr ''warning''),
                        (''message'', PyStr ''Training interrupted by user'')]],
      engine_calls = calls, status = SysExit 0\<rparr>"
  by (simp add: handlers_def log_event)

lemma handlers_exception:
  assumes "is_Exception e"
  shows "handlers e out calls =
     \<lparr>stdout = out @ [[(''type'', PyStr ''error''),
                        (''message'', PyStr (''Training failed: '' @ exc_str e))]],
      engine_calls = calls, status = SysExit 1\<rparr>"
proof -
  from assms have "e \<noteq> KeyboardInterrupt"
    by auto
  with assms show ?thesis
    by (simp add: handlers_def error_event)
qed

lemma handlers_uncaught:
  assumes "e \<noteq> KeyboardInterrupt" and "\<not> is_Exception e"
  shows "handlers e out calls = \<lparr>stdout = out, engine_calls = calls, status = Uncaught e\<rparr>"
  using assms by (simp add: handlers_def)

text \<open>
  C1 as stated fails: a run need not be one of the three cases. When the import of the
  engine raises an exception that is not an \<^verbatim>\<open>ImportError\<close>, no handler takes it: the
  run writes nothing, so it has no terminal event, and it was not interrupted.
\<close>

theorem terminal_event_cases_counterexample:
  "train_yolov8 int_floats cfg0 env_broken
     = \<lparr>stdout = [], engine_calls = [],
        status = Uncaught (Exception ''libtorch_cpu.so: cannot open'')\<rparr>"
  by (simp add: train_yolov8_def env_broken_def env0_def)

text \<open>
  C1, amended. In every run in which no exception reaches the script once the
  \<^verbatim>\<open>completed\<close> line is written, the stream holds at most one terminal event and no
  event before the last one is terminal. The run ends in one of these ways. When the import
  raises \<^verbatim>\<open>ImportError\<close>: one \<^verbatim>\<open>error\<close> event and nothing else, status 1. When the
  import raises anything else: nothing written, the exception escapes. When the guarded block
  raises nothing: one \<^verbatim>\<open>completed\<close> event, the last of the stream, and the function
  returns. When the guarded block raises \<^verbatim>\<open>KeyboardInterrupt\<close>: no terminal event, the
  warning log is last, status 0. When it raises an instance of \<^verbatim>\<open>Exception\<close>: one
  \<^verbatim>\<open>error\<close> event, the last of the stream, status 1. When it raises any other exception:
  no terminal event, the exception escapes.
\<close>

theorem stream_end_by_outcome:
  assumes "fault env After_completed = None"
  shows "length (filter terminal (stdout (train_yolov8 fl cfg env))) \<le> 1
    \<and> filter terminal (butlast (stdout (train_yolov8 fl cfg env))) = []
    \<and> (import_ultralytics env = Some e \<and> is_ImportError e \<longrightarrow>
          train_yolov8 fl cfg env =
            \<lparr>stdout = [[(''type'', PyStr ''error''),
                        (''message'',
                         PyStr ''Ultralytics not installed. Run: pip install ultralytics'')]],
             engine_calls = [], status = SysExit 1\<rparr>)
    \<and> (import_ultralytics env = Some e \<and> \<not> is_ImportError e \<longrightarrow>
          train_yolov8 fl cfg env = \<lparr>stdout = [], engine_calls = [], status = Uncaught e\<rparr>)
    \<and> (import_ultralytics env = None \<and> block_exception cfg env = None \<longrightarrow>
          (\<exists>pre c. stdout (train_yolov8 fl cfg env) = pre @ [c]
             \<and> event_type c = Some (PyStr ''completed'') \<and> filter terminal pre = [])
          \<and> status (train_yolov8 fl cfg env) = Returned)
    \<and> (import_ultralytics env = None \<and> block_exception cfg env = Some KeyboardInterrupt \<longrightarrow>
          (\<exists>pre. stdout (train_yolov8 fl cfg env)
               = pre @ [[(''type'', PyStr ''log''), (''level'', PyStr ''warning''),
                         (''message'', PyStr ''Training interrupted by user'')]]
             \<and> filter terminal pre = [])
          \<and> status (train_yolov8 fl cfg env) = SysExit 0)
    \<and> (import_ultralytics env = None \<and> block_exception cfg env = Some e \<and> is_Exception e \<longrightarrow>
          (\<exists>pre. stdout (train_yolov8 fl cfg env)
               = pre @ [[(''type'', PyStr ''error''),
                         (''message'', PyStr (''Training failed: '' @ exc_str e))]]
             \<and> filter terminal pre = [])
          \<and> status (train_yolov8 fl cfg env) = SysExit 1)
    \<and> (import_ultralytics env = None \<and> block_exception cfg env = Some e
          \<and> e \<noteq> KeyboardInterrupt \<and> \<not> is_Exception e \<longrightarrow>
          filter terminal (stdout (train_yolov8 fl cfg env)) = []
          \<and> status (train_yolov8 fl cfg env) = Uncaught e)"
proof (cases "import_ultralytics env")
  case (Some e0)
  then show ?thesis
    by (auto simp add: train_yolov8_def error_event)
next
  case None
  let ?r = "train_yolov8 fl cfg env"
  let ?pre = "\<lambda>evs. init_logs fl cfg @ info_log (load_message cfg env) # evs"
  have qpre: "quiet (?pre evs)" if "quiet evs" for evs
    using that quiet_append [of "[info_log (load_message cfg env)]" evs]
    by (simp add: quiet_append quiet_init_logs quiet_info)
  show ?thesis
  proof (cases "block_exception cfg env")
    case returned: None
    obtain evs c where q: "quiet evs" and c: "event_type c = Some (PyStr ''completed'')"
      and r: "?r = \<lparr>stdout = ?pre evs @ [c],
          engine_calls = YOLO (weights_path cfg env)
            # map (\<lambda>cb. Add_callback (fst cb) (snd cb)) registered @ [train_call cfg],
          status = Returned\<rparr>"
      using run_completes [OF None returned assms, of fl] by auto
    have s: "stdout ?r = ?pre evs @ [c]" and st: "status ?r = Returned"
      by (simp_all add: r)
    have ft: "filter terminal (?pre evs) = []"
      using qpre [OF q] by (simp add: quiet_def)
    from stream_closed [OF qpre [OF q], of "[c]"]
    have core: "length (filter terminal (stdout ?r)) \<le> 1
        \<and> filter terminal (butlast (stdout ?r)) = []"
      unfolding s by simp
    have "\<exists>pre c. stdout ?r = pre @ [c] \<and> event_type c = Some (PyStr ''completed'')
        \<and> filter terminal pre = []"
      using s c ft by blast
    with core st None returned show ?thesis
      by simp
  next
    case raised: (Some e1)
    obtain evs calls where q: "quiet evs"
      and r: "?r = handlers e1 (?pre evs) (YOLO (weights_path cfg env) # calls)"
      using run_block_raises [OF None raised, of fl] by auto
    have ft: "filter terminal (?pre evs) = []"
      using qpre [OF q] by (simp add: quiet_def)
    obtain fin where t: "stdout ?r = ?pre evs @ fin" and fin: "fin = [] \<or> (\<exists>x. fin = [x])"
      using handlers_stream [of e1 "?pre evs" "YOLO (weights_path cfg env) # calls"]
      unfolding r by blast
    from stream_closed [OF qpre [OF q] fin]
    have core: "length (filter terminal (stdout ?r)) \<le> 1
        \<and> filter terminal (butlast (stdout ?r)) = []"
      unfolding t .
    have interrupt: "(\<exists>pre. stdout ?r
          = pre @ [[(''type'', PyStr ''log''), (''level'', PyStr ''warning''),
                    (''message'', PyStr ''Training interrupted by user'')]]
          \<and> filter terminal pre = [])
        \<and> status ?r = SysExit 0"
      if "e1 = KeyboardInterrupt"
      using that ft by (simp add: r handlers_interrupt)
    have failed: "(\<exists>pre. stdout ?r
          = pre @ [[(''type'', PyStr ''error''),
                    (''message'', PyStr (''Training failed: '' @ exc_str e1))]]
          \<and> filter terminal pre = [])
        \<and> status ?r = SysExit 1"
      if "is_Exception e1"
      using ft by (simp add: r handlers_exception [OF that])
    have escaped: "filter terminal (stdout ?r) = [] \<and> status ?r = Uncaught e1"
      if "e1 \<noteq> KeyboardInterrupt" and "\<not> is_Exception e1"
      using ft by (simp add: r handlers_uncaught [OF that])
    from core interrupt failed escaped None raised show ?thesis
      by auto
  qed
qed

theorem stream_end_by_outcome_witness:
  "fault env0 After_completed = None
   \<and> import_ultralytics env0 = None \<and> block_exception cfg0 env0 = None
   \<and> (\<exists>pre c. stdout (train_yolov8 int_floats cfg0 env0) = pre @ [c]
         \<and> event_type c = Some (PyStr ''completed'') \<and> filter terminal pre = [])
   \<and> status (train_yolov8 int_floats cfg0 env0) = Returned
   \<and> fault env_missing After_completed = None
   \<and> import_ultralytics env_missing = Some (ImportError ''No module named ultralytics'')
   \<and> is_ImportError (ImportError ''No module named ultralytics'')
   \<and> stdout (train_yolov8 int_floats cfg0 env_missing)
       = [[(''type'', PyStr ''error''),
           (''message'', PyStr ''Ultralytics not installed. Run: pip install ultralytics'')]]
   \<and> fault env_broken After_completed = None
   \<and> import_ultralytics env_broken = Some (Exception ''libtorch_cpu.so: cannot open'')
   \<and> \<not> is_ImportError (Exception ''libtorch_cpu.so: cannot open'')
   \<and> stdout (train_yolov8 int_floats cfg0 env_broken) = []
   \<and> fault env_interrupted After_completed = None
   \<and> import_ultralytics env_interrupted = None
   \<and> block_exception cfg0 env_interrupted = Some KeyboardInterrupt
   \<and> (\<exists>pre. stdout (train_yolov8 int_floats cfg0 env_interrupted)
         = pre @ [[(''type'', PyStr ''log''), (''level'', PyStr ''warning''),
                   (''message'', PyStr ''Training interrupted by user'')]]
       \<and> filter terminal pre = [])
   \<and> status (train_yolov8 int_floats cfg0 env_interrupted) = SysExit 0
   \<and> fault env_pipe After_completed = None
   \<and> import_ultralytics env_pipe = None
   \<and> block_exception cfg0 env_pipe = Some (Exception ''Broken pipe'')
   \<and> is_Exception (Exception ''Broken pipe'')
   \<and> (\<exists>pre. stdout (train_yolov8 int_floats cfg0 env_pipe)
         = pre @ [[(''type'', PyStr ''error''),
                   (''message'', PyStr ''Training failed: Broken pipe'')]]
       \<and> filter terminal pre = [])
   \<and> status (train_yolov8 int_floats cfg0 env_pipe) = SysExit 1
   \<and> fault env_exit After_completed = None
   \<and> import_ultralytics env_exit = None
   \<and> block_exception cfg0 env_exit = Some (BaseException ''1'')
   \<and> BaseException ''1'' \<noteq> KeyboardInterrupt \<and> \<not> is_Exception (BaseException ''1'')
   \<and> filter terminal (stdout (train_yolov8 int_floats cfg0 env_exit)) = []
   \<and> status (train_yolov8 int_floats cfg0 env_exit) = Uncaught (BaseException ''1'')"
proof -
  have a: "fault env0 After_completed = None" "import_ultralytics env0 = None"
    "block_exception cfg0 env0 = None"
    by (simp_all add: env0_def block_exception_def completion_fault_def)
  have b: "fault env_missing After_completed = None"
    "import_ultralytics env_missing = Some (ImportError ''No module named ultralytics'')"
    "is_ImportError (ImportError ''No module named ultralytics'')"
    by (simp_all add: env_missing_def env0_def)
  have c: "fault env_broken After_completed = None"
    "import_ultralytics env_broken = Some (Exception ''libtorch_cpu.so: cannot open'')"
    "\<not> is_ImportError (Exception ''libtorch_cpu.so: cannot open'')"
    by (simp_all add: env_broken_def env0_def)
  have d: "fault env_interrupted After_completed = None"
    "import_ultralytics env_interrupted = None"
    "block_exception cfg0 env_interrupted = Some KeyboardInterrupt"
    by (simp_all add: env_interrupted_def env0_def block_exception_def)
  have e: "fault env_pipe After_completed = None" "import_ultralytics env_pipe = None"
    "block_exception cfg0 env_pipe = Some (Exception ''Broken pipe'')"
    "is_Exception (Exception ''Broken pipe'')"
    by (simp_all add: env_pipe_def env0_def block_exception_def completion_fault_def)
  have f: "fault env_exit After_completed = None" "import_ultralytics env_exit = None"
    "block_exception cfg0 env_exit = Some (BaseException ''1'')"
    "BaseException ''1'' \<noteq> KeyboardInterrupt" "\<not> is_Exception (BaseException ''1'')"
    by (simp_all add: env_exit_def env0_def block_exception_def)
  have a': "(\<exists>pre c. stdout (train_yolov8 int_floats cfg0 env0) = pre @ [c]
         \<and> event_type c = Some (PyStr ''completed'') \<and> filter terminal pre = [])
      \<and> status (train_yolov8 int_floats cfg0 env0) = Returned"
    using stream_end_by_outcome [OF a(1), where fl = int_floats and cfg = cfg0] a(2,3)
    by blast
  have b': "stdout (train_yolov8 int_floats cfg0 env_missing)
       = [[(''type'', PyStr ''error''),
           (''message'', PyStr ''Ultralytics not installed. Run: pip install ultralytics'')]]"
    using stream_end_by_outcome [OF b(1), where fl = int_floats and cfg = cfg0
        and e = "ImportError ''No module named ultralytics''"] b(2,3)
    by simp
  have c': "stdout (train_yolov8 int_floats cfg0 env_broken) = []"
    using stream_end_by_outcome [OF c(1), where fl = int_floats and cfg = cfg0
        and e = "Exception ''libtorch_cpu.so: cannot open''"] c(2,3)
    by simp
  have d': "(\<exists>pre. stdout (train_yolov8 int_floats cfg0 env_interrupted)
         = pre @ [[(''type'', PyStr ''log''), (''level'', PyStr ''warning''),
                   (''message'', PyStr ''Training interrupted by user'')]]
       \<and> filter terminal pre = [])
      \<and> status (train_yolov8 int_floats cfg0 env_interrupted) = SysExit 0"
    using stream_end_by_outcome [OF d(1), where fl = int_floats and cfg = cfg0] d(2,3)
    by blast
  have e': "(\<exists>pre. stdout (train_yolov8 int_floats cfg0 env_pipe)
         = pre @ [[(''type'', PyStr ''error''),
                   (''message'', PyStr ''Training failed: Broken pipe'')]]
       \<and> filter terminal pre = [])
      \<and> status (train_yolov8 int_floats cfg0 env_pipe) = SysExit 1"
    using stream_end_by_outcome [OF e(1), where fl = int_floats and cfg = cfg0
        and e = "Exception ''Broken pipe''"] e(2,3,4)
    by simp
  have f': "filter terminal (stdout (train_yolov8 int_floats cfg0 env_exit)) = []
      \<and> status (train_yolov8 int_floats cfg0 env_exit) = Uncaught (BaseException ''1'')"
    using stream_end_by_outcome [OF f(1), where fl = int_floats and cfg = cfg0
        and e = "BaseException ''1''"] f(2,3,4,5)
    by simp
  from a a' b b' c c' d d' e e' f f' show ?thesis
    by (intro conjI) (rule TrueI | blast)+
qed

text \<open>
  The run the amended statement leaves out. Line 172 is inside the \<^verbatim>\<open>try\<close>: when a
  \<^verbatim>\<open>KeyboardInterrupt\<close> arrives after it has written the \<^verbatim>\<open>completed\<close> line, the
  handler of line 174 writes its warning after the terminal event.
\<close>

lemma interrupt_after_completed:
  "map event_type (drop 11 (stdout (train_yolov8 int_floats cfg0 env_late_interrupt)))
     = [Some (PyStr ''log''), Some (PyStr ''log''), Some (PyStr ''completed''),
        Some (PyStr ''log'')]
   \<and> warning_log (last (stdout (train_yolov8 int_floats cfg0 env_late_interrupt)))
   \<and> status (train_yolov8 int_floats cfg0 env_late_interrupt) = SysExit 0"
  by (simp add: train_yolov8_def try_body_def choose_weights_def report_completion_def
      handlers_def env_late_interrupt_def env0_def cfg0_def tr0_def int_floats_def
      registered_def last_pt_def best_weights_def
      on_train_epoch_end_events on_train_batch_end_events on_model_save_events
      log_event checkpoint_event completed_event event_type_def warning_log_def
      path_str_def path_div_def Path_def path_root_def get0_def Let_def)

text \<open>
  C2. When the import of the engine raises \<^verbatim>\<open>ImportError\<close>, the run writes one
  \<^verbatim>\<open>error\<close> event and nothing else, exits with status 1, and makes no call to the engine:
  no model is loaded and no training is started.
\<close>

theorem missing_engine_single_error:
  assumes "import_ultralytics env = Some (ImportError m)"
  shows "train_yolov8 fl cfg env =
           \<lparr>stdout = [[(''type'', PyStr ''error''),
                       (''message'',
                        PyStr ''Ultralytics not installed. Run: pip install ultralytics'')]],
            engine_calls = [], status = SysExit 1\<rparr>"
  using assms by (simp add: train_yolov8_def error_event)

text \<open>
  C3. When the engine is imported, the model is loaded and \<^verbatim>\<open>model.train\<close> raises
  \<^verbatim>\<open>KeyboardInterrupt\<close>, the stream holds exactly one warning \<^verbatim>\<open>log\<close> event, which is
  its last event, it holds no \<^verbatim>\<open>completed\<close> and no \<^verbatim>\<open>error\<close> event, and the exit
  status is 0.
\<close>

theorem interrupt_during_training:
  assumes "import_ultralytics env = None"
    and "load_model env (weights_path cfg env) = None"
    and "train_returns env = Inl KeyboardInterrupt"
  shows "length (filter warning_log (stdout (train_yolov8 fl cfg env))) = 1
         \<and> last (stdout (train_yolov8 fl cfg env))
             = [(''type'', PyStr ''log''), (''level'', PyStr ''warning''),
                (''message'', PyStr ''Training interrupted by user'')]
         \<and> filter terminal (stdout (train_yolov8 fl cfg env)) = []
         \<and> last (engine_calls (train_yolov8 fl cfg env)) = train_call cfg
         \<and> status (train_yolov8 fl cfg env) = SysExit 0"
proof -
  obtain evs where q: "quiet evs"
    and t: "try_body fl cfg env (time_start env) (init_logs fl cfg) =
        (Some KeyboardInterrupt, init_logs fl cfg @ info_log (load_message cfg env) # evs,
         YOLO (weights_path cfg env)
           # map (\<lambda>cb. Add_callback (fst cb) (snd cb)) registered @ [train_call cfg])"
    using try_body_train_raises [OF assms(2,3)] by blast
  define pre where "pre = init_logs fl cfg @ info_log (load_message cfg env) # evs"
  have qp: "quiet pre"
    using q quiet_append [of "[info_log (load_message cfg env)]" evs]
    by (simp add: pre_def quiet_append quiet_init_logs quiet_info)
  have r: "train_yolov8 fl cfg env =
      \<lparr>stdout = pre @ [[(''type'', PyStr ''log''), (''level'', PyStr ''warning''),
                        (''message'', PyStr ''Training interrupted by user'')]],
       engine_calls = YOLO (weights_path cfg env)
           # map (\<lambda>cb. Add_callback (fst cb) (snd cb)) registered @ [train_call cfg],
       status = SysExit 0\<rparr>"
    using t assms(1) by (simp add: train_yolov8_imported handlers_def log_event pre_def)
  from qp show ?thesis
    unfolding r by (simp add: quiet_def warning_log_def terminal_def event_type_def)
qed

theorem missing_engine_single_error_witness:
  "import_ultralytics (env0\<lparr>import_ultralytics := Some (ImportError ''No module named ultralytics'')\<rparr>)
     = Some (ImportError ''No module named ultralytics'')
   \<and> train_yolov8 int_floats cfg0
         (env0\<lparr>import_ultralytics := Some (ImportError ''No module named ultralytics'')\<rparr>)
       = \<lparr>stdout = [[(''type'', PyStr ''error''),
                      (''message'',
                       PyStr ''Ultralytics not installed. Run: pip install ultralytics'')]],
           engine_calls = [], status = SysExit 1\<rparr>"
  using missing_engine_single_error
    [of "env0\<lparr>import_ultralytics := Some (ImportError ''No module named ultralytics'')\<rparr>"
        "''No module named ultralytics''" int_floats cfg0]
  by simp

theorem interrupt_during_training_witness:
  "import_ultralytics (env0\<lparr>train_returns := Inl KeyboardInterrupt\<rparr>) = None
   \<and> load_model (env0\<lparr>train_returns := Inl KeyboardInterrupt\<rparr>)
        (weights_path cfg0 (env0\<lparr>train_returns := Inl KeyboardInterrupt\<rparr>)) = None
   \<and> train_returns (env0\<lparr>train_returns := Inl KeyboardInterrupt\<rparr>) = Inl KeyboardInterrupt
   \<and> length (filter warning_log
        (stdout (train_yolov8 int_floats cfg0 (env0\<lparr>train_returns := Inl KeyboardInterrupt\<rparr>)))) = 1
   \<and> filter terminal
        (stdout (train_yolov8 int_floats cfg0 (env0\<lparr>train_returns := Inl KeyboardInterrupt\<rparr>))) = []
   \<and> status (train_yolov8 int_floats cfg0 (env0\<lparr>train_returns := Inl KeyboardInterrupt\<rparr>))
       = SysExit 0"
proof -
  have h: "import_ultralytics (env0\<lparr>train_returns := Inl KeyboardInterrupt\<rparr>) = None"
    "load_model (env0\<lparr>train_returns := Inl KeyboardInterrupt\<rparr>)
       (weights_path cfg0 (env0\<lparr>train_returns := Inl KeyboardInterrupt\<rparr>)) = None"
    "train_returns (env0\<lparr>train_returns := Inl KeyboardInterrupt\<rparr>) = Inl KeyboardInterrupt"
    by (simp_all add: env0_def)
  from interrupt_during_training [OF h, of int_floats] h show ?thesis
    by simp
qed


text \<open>
  C5. The batch-end hook adds one \<^verbatim>\<open>progress\<close> event, with \<^verbatim>\<open>step\<close> the batch index
  and \<^verbatim>\<open>totalSteps\<close> the length of the train loader, when the batch index is divisible by
  10, and adds nothing when it is not.
\<close>

theorem batch_end_every_tenth:
  "(batch tr mod 10 = 0 \<longrightarrow>
      on_train_batch_end cfg tr out =
        (None, out @ [[(''type'', PyStr ''progress''), (''epoch'', PyInt (epoch tr + 1)),
                       (''totalEpochs'', PyInt (epochs cfg)), (''step'', PyInt (batch tr)),
                       (''totalSteps'', PyInt (int (train_loader_len tr)))]]))
   \<and> (batch tr mod 10 \<noteq> 0 \<longrightarrow> on_train_batch_end cfg tr out = (None, out))"
  by (simp add: on_train_batch_end_events)

theorem batch_end_every_tenth_witness:
  "batch tr0 mod 10 = 0
   \<and> on_train_batch_end cfg0 tr0 [] =
        (None, [[(''type'', PyStr ''progress''), (''epoch'', PyInt 1), (''totalEpochs'', PyInt 3),
                 (''step'', PyInt 20), (''totalSteps'', PyInt 8)]])
   \<and> batch (tr0\<lparr>batch := 7\<rparr>) mod 10 \<noteq> 0
   \<and> on_train_batch_end cfg0 (tr0\<lparr>batch := 7\<rparr>) [] = (None, [])"
  using batch_end_every_tenth [of tr0 cfg0 "[]"] batch_end_every_tenth [of "tr0\<lparr>batch := 7\<rparr>" cfg0 "[]"]
  by (simp add: tr0_def cfg0_def)

text \<open>
  C6, at a failing input. The engine runs the callbacks of \<^verbatim>\<open>on_model_save\<close> with
  \<^verbatim>\<open>save_dir\<close> \<^verbatim>\<open>runs/detect/train\<close> while no \<^verbatim>\<open>best.pt\<close> exists: the hook writes a
  \<^verbatim>\<open>checkpoint\<close> event for \<^verbatim>\<open>runs/detect/train/weights/best.pt\<close> all the same, and the
  check of line 169, made later in the same run on the same path, finds no file and adds no
  second checkpoint before \<^verbatim>\<open>completed\<close>.
\<close>

theorem model_save_checkpoint_without_file:
  "stdout (train_yolov8 int_floats cfg0 env0) ! 10
     = [(''type'', PyStr ''checkpoint''),
        (''path'', PyStr ''runs/detect/train/weights/best.pt''), (''epoch'', PyInt 1)]
   \<and> path_str (best_weights cfg0) = ''runs/detect/train/weights/best.pt''
   \<and> ''runs/detect/train/weights/best.pt'' \<notin> exists_at_load env0 \<union> exists_at_end env0
   \<and> map event_type (drop 11 (stdout (train_yolov8 int_floats cfg0 env0)))
       = [Some (PyStr ''log''), Some (PyStr ''log''), Some (PyStr ''completed'')]"
  by (simp add: train_yolov8_def try_body_def choose_weights_def report_completion_def
      handlers_def env0_def cfg0_def tr0_def int_floats_def registered_def last_pt_def
      best_weights_def on_train_epoch_end_events on_train_batch_end_events on_model_save_events
      log_event checkpoint_event completed_event event_type_def
      path_str_def path_div_def Path_def path_root_def get0_def Let_def)

text \<open>
  C7, at a failing input. The epoch-level call \<^verbatim>\<open>progress(epoch=1, total_epochs=3)\<close>
  writes a record in which \<^verbatim>\<open>step\<close> and \<^verbatim>\<open>totalSteps\<close> are present with the value
  \<^verbatim>\<open>None\<close> (\<^verbatim>\<open>null\<close> in the line), and so does the call the epoch-end hook makes.
\<close>

theorem epoch_progress_has_null_steps:
  "progress (PyInt 1) (PyInt 3) PyNone PyNone ([] :: int event list)
     = [[(''type'', PyStr ''progress''), (''epoch'', PyInt 1), (''totalEpochs'', PyInt 3),
         (''step'', PyNone), (''totalSteps'', PyNone)]]
   \<and> snd (on_train_epoch_end int_floats cfg0 tr0 []) ! 1
       = [(''type'', PyStr ''progress''), (''epoch'', PyInt 1), (''totalEpochs'', PyInt 3),
          (''step'', PyNone), (''totalSteps'', PyNone)]"
  by (simp add: progress_event on_train_epoch_end_events cfg0_def tr0_def)

text \<open>
  C8. When the engine is imported, \<^verbatim>\<open>YOLO\<close> is called once, first of all engine calls:
  with \<^verbatim>\<open>{output_dir}/weights/last.pt\<close> when \<^verbatim>\<open>resume\<close> is set and that file exists, and
  with \<^verbatim>\<open>{model_variant}.pt\<close> in every other case, where the fifth line of the stream is
  the info log of the pretrained load. When the load returns, the calls that follow are the
  three registrations and one \<^verbatim>\<open>model.train\<close> whose arguments do not depend on
  \<^verbatim>\<open>resume\<close>.
\<close>

theorem startup_policy:
  assumes "import_ultralytics env = None"
  shows "(resume cfg \<and> output_dir cfg @ ''/weights/last.pt'' \<in> exists_at_load env \<longrightarrow>
            hd (engine_calls (train_yolov8 fl cfg env))
              = YOLO (output_dir cfg @ ''/weights/last.pt''))
         \<and> (\<not> (resume cfg \<and> output_dir cfg @ ''/weights/last.pt'' \<in> exists_at_load env) \<longrightarrow>
            hd (engine_calls (train_yolov8 fl cfg env)) = YOLO (model_variant cfg @ ''.pt'')
            \<and> stdout (train_yolov8 fl cfg env) ! 4
                = info_log (''Loading pretrained '' @ model_variant cfg @ '' model...''))
         \<and> length (filter is_YOLO (engine_calls (train_yolov8 fl cfg env))) = 1
         \<and> (load_model env (weights_path cfg env) = None \<longrightarrow>
            tl (engine_calls (train_yolov8 fl cfg env))
              = [Add_callback ''on_train_epoch_end'' On_train_epoch_end,
                 Add_callback ''on_train_batch_end'' On_train_batch_end,
                 Add_callback ''on_model_save'' On_model_save,
                 train_call cfg])"
proof -
  let ?r = "train_yolov8 fl cfg env"
  let ?adds = "map (\<lambda>cb. Add_callback (fst cb) (snd cb)) registered @ [train_call cfg]"
  let ?calls = "YOLO (weights_path cfg env)
      # (if load_model env (weights_path cfg env) = None then ?adds else [])"
  obtain exc evs where t: "try_body fl cfg env (time_start env) (init_logs fl cfg) =
      (exc, init_logs fl cfg @ info_log (load_message cfg env) # evs, ?calls)"
    using try_body_shape [of fl cfg env "time_start env" "init_logs fl cfg"] by blast
  have both: "(\<exists>fin. stdout ?r = (init_logs fl cfg @ info_log (load_message cfg env) # evs) @ fin)
      \<and> engine_calls ?r = ?calls"
  proof (cases exc)
    case None
    with t assms have "?r =
        \<lparr>stdout = init_logs fl cfg @ info_log (load_message cfg env) # evs,
         engine_calls = ?calls, status = Returned\<rparr>"
      by (simp add: train_yolov8_imported)
    then show ?thesis by simp
  next
    case (Some e)
    with t assms have r: "?r =
        handlers e (init_logs fl cfg @ info_log (load_message cfg env) # evs) ?calls"
      by (simp add: train_yolov8_imported)
    from handlers_stream [of e "init_logs fl cfg @ info_log (load_message cfg env) # evs" ?calls]
    show ?thesis
      unfolding r by blast
  qed
  then have shape: "\<exists>evs. stdout ?r = init_logs fl cfg @ info_log (load_message cfg env) # evs"
    and calls: "engine_calls ?r = ?calls"
    by auto
  from shape have fifth: "stdout ?r ! 4 = info_log (load_message cfg env)"
    by (auto simp add: init_logs_def)
  from calls have "hd (engine_calls ?r) = YOLO (weights_path cfg env)"
    by simp
  moreover from calls have "length (filter is_YOLO (engine_calls ?r)) = 1"
    by (simp add: is_YOLO_def registered_def train_call_def)
  moreover from calls have "load_model env (weights_path cfg env) = None \<longrightarrow>
      tl (engine_calls ?r)
        = [Add_callback ''on_train_epoch_end'' On_train_epoch_end,
           Add_callback ''on_train_batch_end'' On_train_batch_end,
           Add_callback ''on_model_save'' On_model_save,
           train_call cfg]"
    by (simp add: registered_def)
  ultimately show ?thesis
    using fifth by (simp add: weights_path_def load_message_def last_pt_def)
qed

theorem startup_policy_witness:
  "import_ultralytics (env0\<lparr>exists_at_load := {''runs/detect/weights/last.pt''}\<rparr>) = None
   \<and> resume cfg0
   \<and> output_dir cfg0 @ ''/weights/last.pt''
        \<in> exists_at_load (env0\<lparr>exists_at_load := {''runs/detect/weights/last.pt''}\<rparr>)
   \<and> hd (engine_calls (train_yolov8 int_floats cfg0
            (env0\<lparr>exists_at_load := {''runs/detect/weights/last.pt''}\<rparr>)))
       = YOLO ''runs/detect/weights/last.pt''
   \<and> import_ultralytics env0 = None
   \<and> \<not> (resume cfg0 \<and> output_dir cfg0 @ ''/weights/last.pt'' \<in> exists_at_load env0)
   \<and> hd (engine_calls (train_yolov8 int_floats cfg0 env0)) = YOLO ''yolov8n.pt''
   \<and> stdout (train_yolov8 int_floats cfg0 env0) ! 4
       = info_log ''Loading pretrained yolov8n model...''
   \<and> load_model env0 (weights_path cfg0 env0) = None
   \<and> tl (engine_calls (train_yolov8 int_floats cfg0 env0))
       = [Add_callback ''on_train_epoch_end'' On_train_epoch_end,
          Add_callback ''on_train_batch_end'' On_train_batch_end,
          Add_callback ''on_model_save'' On_model_save,
          train_call cfg0]"
proof -
  have a: "import_ultralytics (env0\<lparr>exists_at_load := {''runs/detect/weights/last.pt''}\<rparr>) = None"
    and b: "import_ultralytics env0 = None"
    by (simp_all add: env0_def)
  from startup_policy [OF a, of cfg0 int_floats] startup_policy [OF b, of cfg0 int_floats] a b
  show ?thesis
    by (simp add: env0_def cfg0_def)
qed

text \<open>
  C9 as stated fails: when \<^verbatim>\<open>model.train\<close> raises an exception whose text is
  \<^verbatim>\<open>boom\<close>, the message of the error event is \<^verbatim>\<open>Training failed: boom\<close>, which is
  not the text of the fault.
\<close>

theorem error_message_is_fault_text_counterexample:
  "map_of (last (stdout (train_yolov8 int_floats cfg0
       (env0\<lparr>train_returns := Inl (Exception ''boom'')\<rparr>)))) ''message''
     = Some (PyStr ''Training failed: boom'')
   \<and> map_of (last (stdout (train_yolov8 int_floats cfg0
         (env0\<lparr>train_returns := Inl (Exception ''boom'')\<rparr>)))) ''message''
       \<noteq> Some (PyStr (exc_str (Exception ''boom'')))"
  by (simp add: train_yolov8_def try_body_def choose_weights_def handlers_def env0_def cfg0_def
      tr0_def int_floats_def registered_def last_pt_def
      on_train_epoch_end_events on_train_batch_end_events on_model_save_events
      log_event error_event get0_def Let_def)

text \<open>
  C9, amended. When the engine is imported and \<^verbatim>\<open>YOLO(...)\<close> or \<^verbatim>\<open>model.train\<close>
  raises an instance of \<^verbatim>\<open>Exception\<close>, the run ends the stream with one \<^verbatim>\<open>error\<close>
  event whose message is \<^verbatim>\<open>Training failed: \<close> followed by the text of the fault, no
  terminal event comes before it, and the exit status is 1.
\<close>

theorem failure_reported_with_prefix:
  assumes "import_ultralytics env = None" and "is_Exception e"
    and "load_model env (weights_path cfg env) = Some e
         \<or> load_model env (weights_path cfg env) = None \<and> train_returns env = Inl e"
  shows "\<exists>pre. stdout (train_yolov8 fl cfg env)
             = pre @ [[(''type'', PyStr ''error''),
                       (''message'', PyStr (''Training failed: '' @ exc_str e))]]
           \<and> filter terminal pre = []
           \<and> status (train_yolov8 fl cfg env) = SysExit 1"
proof -
  obtain evs calls where q: "quiet evs"
    and r: "train_yolov8 fl cfg env =
        handlers e (init_logs fl cfg @ info_log (load_message cfg env) # evs)
          (YOLO (weights_path cfg env) # calls)"
    using run_raises [OF assms(1,3)] by blast
  have "quiet (init_logs fl cfg @ info_log (load_message cfg env) # evs)"
    using q quiet_append [of "[info_log (load_message cfg env)]" evs]
    by (simp add: quiet_append quiet_init_logs quiet_info)
  then have "filter terminal (init_logs fl cfg @ info_log (load_message cfg env) # evs) = []"
    by (simp add: quiet_def)
  moreover from assms(2) have "e \<noteq> KeyboardInterrupt"
    by auto
  ultimately show ?thesis
    unfolding r using assms(2) by (simp add: handlers_def error_event)
qed

theorem failure_reported_with_prefix_witness:
  "import_ultralytics (env0\<lparr>train_returns := Inl (Exception ''boom'')\<rparr>) = None
   \<and> is_Exception (Exception ''boom'')
   \<and> load_model (env0\<lparr>train_returns := Inl (Exception ''boom'')\<rparr>)
        (weights_path cfg0 (env0\<lparr>train_returns := Inl (Exception ''boom'')\<rparr>)) = None
   \<and> train_returns (env0\<lparr>train_returns := Inl (Exception ''boom'')\<rparr>) = Inl (Exception ''boom'')
   \<and> (\<exists>pre. stdout (train_yolov8 int_floats cfg0 (env0\<lparr>train_returns := Inl (Exception ''boom'')\<rparr>))
               = pre @ [[(''type'', PyStr ''error''), (''message'', PyStr ''Training failed: boom'')]]
             \<and> filter terminal pre = []
             \<and> status (train_yolov8 int_floats cfg0
                   (env0\<lparr>train_returns := Inl (Exception ''boom'')\<rparr>)) = SysExit 1)"
proof -
  have h: "import_ultralytics (env0\<lparr>train_returns := Inl (Exception ''boom'')\<rparr>) = None"
    "is_Exception (Exception ''boom'')"
    "load_model (env0\<lparr>train_returns := Inl (Exception ''boom'')\<rparr>)
        (weights_path cfg0 (env0\<lparr>train_returns := Inl (Exception ''boom'')\<rparr>)) = Some (Exception ''boom'')
     \<or> load_model (env0\<lparr>train_returns := Inl (Exception ''boom'')\<rparr>)
        (weights_path cfg0 (env0\<lparr>train_returns := Inl (Exception ''boom'')\<rparr>)) = None
       \<and> train_returns (env0\<lparr>train_returns := Inl (Exception ''boom'')\<rparr>) = Inl (Exception ''boom'')"
    by (simp_all add: env0_def)
  have l: "load_model (env0\<lparr>train_returns := Inl (Exception ''boom'')\<rparr>)
        (weights_path cfg0 (env0\<lparr>train_returns := Inl (Exception ''boom'')\<rparr>)) = None"
    and t: "train_returns (env0\<lparr>train_returns := Inl (Exception ''boom'')\<rparr>)
        = Inl (Exception ''boom'')"
    by (simp_all add: env0_def)
  from failure_reported_with_prefix [OF h, of int_floats] h(1) l t show ?thesis
    by simp
qed

text \<open>
  C10 as stated fails: no call passes a value positionally and again as a keyword. With
  \<^verbatim>\<open>epoch\<close> given as 1 positionally and as 5 by keyword, the call raises
  \<^verbatim>\<open>TypeError\<close> and writes nothing, so no record has the keyword's value in place of the
  positional one.
\<close>

theorem extra_overwrites_positional_counterexample:
  "metric_call [PyInt 1, PyInt 2] [(''epoch'', PyInt 5)] ([] :: int event list)
     = (Some (TypeError ''metric() got multiple values for argument''), [])"
  by (simp add: metric_call_def metric_params_def)

text \<open>
  C10, amended. A keyword named \<^verbatim>\<open>epoch\<close>, \<^verbatim>\<open>loss\<close>, \<^verbatim>\<open>accuracy\<close> or
  \<^verbatim>\<open>step\<close> is the parameter itself and never part of the extras: when the parameter is also
  given positionally the call raises \<^verbatim>\<open>TypeError\<close> and writes nothing. In every call
  that returns, one record is written in which these four keys hold the values bound to the
  parameters (\<^verbatim>\<open>accuracy\<close> and \<^verbatim>\<open>step\<close> only when not \<^verbatim>\<open>None\<close>), and every other
  keyword, merged after them, is present with its value.
\<close>

theorem metric_call_keywords:
  "(k \<in> set (take (length args) metric_params) \<and> k \<in> fst ` set kwargs \<longrightarrow>
      (\<exists>m. metric_call args kwargs out = (Some (TypeError m), out)))
   \<and> (metric_call args kwargs out = (None, out') \<longrightarrow>
      (\<exists>ev. out' = out @ [ev]
         \<and> map_of ev ''epoch'' = metric_slot args kwargs 0
         \<and> map_of ev ''loss'' = metric_slot args kwargs 1
         \<and> map_of ev ''accuracy''
             = (case metric_slot args kwargs 2 of
                  None \<Rightarrow> None | Some a \<Rightarrow> if a \<noteq> PyNone then Some a else None)
         \<and> map_of ev ''step''
             = (case metric_slot args kwargs 3 of
                  None \<Rightarrow> None | Some s \<Rightarrow> if s \<noteq> PyNone then Some s else None)
         \<and> (\<forall>kv \<in> set kwargs. fst kv \<notin> set metric_params \<longrightarrow>
               map_of ev (fst kv) = Some (snd kv))))"
proof (intro conjI impI)
  assume c: "k \<in> set (take (length args) metric_params) \<and> k \<in> fst ` set kwargs"
  then have "filter (\<lambda>k. k \<in> fst ` set kwargs) (take (length args) metric_params) \<noteq> []"
    by (auto simp add: filter_empty_conv)
  then show "\<exists>m. metric_call args kwargs out = (Some (TypeError m), out)"
    by (simp add: metric_call_def)
next
  assume r: "metric_call args kwargs out = (None, out')"
  let ?extra = "filter (\<lambda>kv. fst kv \<notin> set metric_params) kwargs"
  from r have d: "distinct (map fst kwargs)"
    by (simp add: metric_call_def split: if_splits)
  from r obtain ep ls where s0: "metric_slot args kwargs 0 = Some ep"
    and s1: "metric_slot args kwargs 1 = Some ls"
    by (auto simp add: metric_call_def split: if_splits option.splits)
  define acc where "acc = (case metric_slot args kwargs 2 of None \<Rightarrow> PyNone | Some a \<Rightarrow> a)"
  define stp where "stp = (case metric_slot args kwargs 3 of None \<Rightarrow> PyNone | Some s \<Rightarrow> s)"
  from r s0 s1 have m: "metric ep ls acc stp ?extra out = (None, out')"
    by (simp add: metric_call_def acc_def stp_def split: if_splits)
  have de: "distinct (map fst ?extra)"
    using d by (simp add: distinct_map_filter)
  have ke: "fst ` set ?extra \<inter> set metric_params = {}"
    by auto
  from metric_emits [OF de ke m] obtain ev where ev: "out' = out @ [ev]"
    "map_of ev ''epoch'' = Some ep" "map_of ev ''loss'' = Some ls"
    "map_of ev ''accuracy'' = (if acc \<noteq> PyNone then Some acc else None)"
    "map_of ev ''step'' = (if stp \<noteq> PyNone then Some stp else None)"
    "\<forall>kv \<in> set ?extra. map_of ev (fst kv) = Some (snd kv)"
    by blast
  have "map_of ev ''accuracy''
      = (case metric_slot args kwargs 2 of
           None \<Rightarrow> None | Some a \<Rightarrow> if a \<noteq> PyNone then Some a else None)"
    using ev(4) by (simp add: acc_def split: option.splits)
  moreover have "map_of ev ''step''
      = (case metric_slot args kwargs 3 of
           None \<Rightarrow> None | Some s \<Rightarrow> if s \<noteq> PyNone then Some s else None)"
    using ev(5) by (simp add: stp_def split: option.splits)
  moreover have "\<forall>kv \<in> set kwargs. fst kv \<notin> set metric_params \<longrightarrow>
      map_of ev (fst kv) = Some (snd kv)"
    using ev(6) by simp
  ultimately show "\<exists>ev. out' = out @ [ev]
         \<and> map_of ev ''epoch'' = metric_slot args kwargs 0
         \<and> map_of ev ''loss'' = metric_slot args kwargs 1
         \<and> map_of ev ''accuracy''
             = (case metric_slot args kwargs 2 of
                  None \<Rightarrow> None | Some a \<Rightarrow> if a \<noteq> PyNone then Some a else None)
         \<and> map_of ev ''step''
             = (case metric_slot args kwargs 3 of
                  None \<Rightarrow> None | Some s \<Rightarrow> if s \<noteq> PyNone then Some s else None)
         \<and> (\<forall>kv \<in> set kwargs. fst kv \<notin> set metric_params \<longrightarrow>
               map_of ev (fst kv) = Some (snd kv))"
    using ev(1,2,3) s0 s1 by simp
qed

theorem metric_call_keywords_witness:
  "''epoch'' \<in> set (take (length [PyInt 1, PyInt 2 :: int pyval]) metric_params)
   \<and> ''epoch'' \<in> fst ` set [(''epoch'', PyInt 5 :: int pyval)]
   \<and> (\<exists>m. metric_call [PyInt 1, PyInt 2] [(''epoch'', PyInt 5)] ([] :: int event list)
            = (Some (TypeError m), []))
   \<and> metric_call [PyInt 1] [(''loss'', PyFloat 2), (''box_loss'', PyFloat 2), (''step'', PyInt 7)]
        ([] :: int event list)
       = (None, [[(''type'', PyStr ''metric''), (''epoch'', PyInt 1), (''loss'', PyFloat 2),
                  (''step'', PyInt 7), (''box_loss'', PyFloat 2)]])
   \<and> (\<exists>ev. [[(''type'', PyStr ''metric''), (''epoch'', PyInt 1), (''loss'', PyFloat 2),
              (''step'', PyInt 7), (''box_loss'', PyFloat 2)]] = [ev :: int event]
         \<and> map_of ev ''epoch'' = Some (PyInt 1)
         \<and> map_of ev ''loss'' = Some (PyFloat 2)
         \<and> map_of ev ''accuracy'' = None
         \<and> map_of ev ''step'' = Some (PyInt 7)
         \<and> map_of ev ''box_loss'' = Some (PyFloat 2))"
proof -
  have a: "''epoch'' \<in> set (take (length [PyInt 1, PyInt 2 :: int pyval]) metric_params)
      \<and> ''epoch'' \<in> fst ` set [(''epoch'', PyInt 5 :: int pyval)]"
    by (simp add: metric_params_def)
  have b: "metric_call [PyInt 1]
        [(''loss'', PyFloat 2), (''box_loss'', PyFloat 2), (''step'', PyInt 7)] ([] :: int event list)
      = (None, [[(''type'', PyStr ''metric''), (''epoch'', PyInt 1), (''loss'', PyFloat 2),
                 (''step'', PyInt 7), (''box_loss'', PyFloat 2)]])"
    by (simp add: metric_call_def metric_params_def metric_slot_def metric_def emit_unpacked_def
        emit_def dict_update_def Let_def)
  from metric_call_keywords [of "''epoch''" "[PyInt 1, PyInt 2]" "[(''epoch'', PyInt 5)]"
      "[] :: int event list" "[]"] a
  have c: "\<exists>m. metric_call [PyInt 1, PyInt 2] [(''epoch'', PyInt 5)] ([] :: int event list)
      = (Some (TypeError m), [])"
    by blast
  from metric_call_keywords [of "''epoch''" "[PyInt 1]"
      "[(''loss'', PyFloat 2), (''box_loss'', PyFloat 2), (''step'', PyInt 7)]"
      "[] :: int event list"
      "[[(''type'', PyStr ''metric''), (''epoch'', PyInt 1), (''loss'', PyFloat 2),
         (''step'', PyInt 7), (''box_loss'', PyFloat 2)]]"] b
  have d: "\<exists>ev. [[(''type'', PyStr ''metric''), (''epoch'', PyInt 1), (''loss'', PyFloat 2),
              (''step'', PyInt 7), (''box_loss'', PyFloat 2)]] = [ev :: int event]
         \<and> map_of ev ''epoch'' = Some (PyInt 1)
         \<and> map_of ev ''loss'' = Some (PyFloat 2)
         \<and> map_of ev ''accuracy'' = None
         \<and> map_of ev ''step'' = Some (PyInt 7)
         \<and> map_of ev ''box_loss'' = Some (PyFloat 2)"
    by (simp add: metric_slot_def metric_params_def)
  from a b c d show ?thesis
    by blast
qed

end
